theory Spec2Isabelle
  imports Complex_Main "HOL-Library.AList"
begin

section \<open>Data model of \<open>src/lib/file-processor.ts\<close>\<close>

text \<open>
  The values that a parsed file or a JSON request carries. \<open>undefined\<close> is what reading
  a missing member yields. Numbers are only ever copied by the merge, never computed
  with, so their payload is an integer here.
\<close>

datatype jsval =
    JUndefined
  | JNull
  | JBool bool
  | JNum int
  | JStr string
  | JArr "jsval list"
  | JObj "(string \<times> jsval) list"

text \<open>
  A row of a parsed file is a plain object, typed \<open>Record<string, any>\<close>: a list of
  own entries (the first entry of a name counts) whose prototype is \<open>Object.prototype\<close>.
\<close>

type_synonym jsobject = "(string \<times> jsval) list"

text \<open>The own members of \<open>Object.prototype\<close>: eleven built-in functions and the
  accessor \<open>__proto__\<close>.\<close>

definition objectPrototypeNames :: "string list" where
  "objectPrototypeNames =
     [''constructor'', ''__defineGetter__'', ''__defineSetter__'', ''hasOwnProperty'',
      ''__lookupGetter__'', ''__lookupSetter__'', ''isPrototypeOf'',
      ''propertyIsEnumerable'', ''toString'', ''valueOf'', ''__proto__'',
      ''toLocaleString'']"

text \<open>
  What a read \<open>row[k]\<close> yields: a value of the row, or, for a name the row lacks and
  \<open>Object.prototype\<close> has, the inherited member of that name (a built-in function;
  for \<open>__proto__\<close> the getter's result, \<open>Object.prototype\<close> itself).
\<close>

datatype cell = Value jsval | Inherited string

definition getProp :: "jsobject \<Rightarrow> string \<Rightarrow> cell" where
  "getProp obj k =
     (case map_of obj k of
        Some v \<Rightarrow> Value v
      | None \<Rightarrow> if k \<in> set objectPrototypeNames then Inherited k else Value JUndefined)"

datatype exn = TypeError | SyntaxError

text \<open>
  The object that \<open>mergeFiles\<close> builds for each output row starts as \<open>{}\<close>: no own
  entries, prototype \<open>Object.prototype\<close>. An assignment to \<open>__proto__\<close> can replace
  the prototype by \<open>null\<close> or by an object that a cell holds: a plain object, an array
  or a built-in function.
\<close>

datatype prototype =
    ObjectPrototype
  | NullPrototype
  | PlainObject jsobject
  | PlainArray "jsval list"
  | BuiltinFunction string

record rowObject =
  own :: "(string \<times> cell) list"
  proto :: prototype

definition emptyObject :: rowObject where
  "emptyObject = \<lparr> own = [], proto = ObjectPrototype \<rparr>"

definition keys :: "rowObject \<Rightarrow> string set" where
  "keys obj = fst ` set (own obj)"

text \<open>\<open>ownField obj k = Some v\<close> says that \<open>obj\<close> has the own member \<open>k\<close> with the value
  \<open>v\<close>, which is then what reading \<open>obj[k]\<close> yields; \<open>keys\<close> are the names of the own
  members, as \<open>Object.keys\<close> lists them.\<close>

definition ownField :: "rowObject \<Rightarrow> string \<Rightarrow> cell option" where
  "ownField obj k = map_of (own obj) k"

text \<open>
  What an assignment \<open>obj[k] = v\<close> finds for \<open>k\<close> on the prototype chain of an object
  that has no own \<open>k\<close>: nothing or a writable data property (either way the assignment
  defines an own property of \<open>obj\<close>), a data property that is not writable, the
  accessor \<open>__proto__\<close> of \<open>Object.prototype\<close>, or an accessor whose setter throws.

  Every string-named member of a parsed object, of an array, of \<open>Array.prototype\<close> and
  of \<open>Object.prototype\<close> is a writable data property, \<open>__proto__\<close> of
  \<open>Object.prototype\<close> apart. A built-in function has the own members \<open>length\<close> and
  \<open>name\<close>, not writable; the function \<open>Object\<close> (the member \<open>constructor\<close>) also
  has \<open>prototype\<close>, not writable; \<open>Function.prototype\<close> has the accessors \<open>caller\<close>
  and \<open>arguments\<close>, whose setter throws.
\<close>

datatype slot = Creates | ReadOnly | ProtoSetter | Thrower

fun chainSlot :: "prototype \<Rightarrow> string \<Rightarrow> slot" where
  "chainSlot NullPrototype k = Creates"
| "chainSlot ObjectPrototype k = (if k = ''__proto__'' then ProtoSetter else Creates)"
| "chainSlot (PlainObject p) k =
     (if k \<in> fst ` set p then Creates
      else if k = ''__proto__'' then ProtoSetter else Creates)"
| "chainSlot (PlainArray xs) k = (if k = ''__proto__'' then ProtoSetter else Creates)"
| "chainSlot (BuiltinFunction f) k =
     (if k = ''length'' \<or> k = ''name'' then ReadOnly
      else if k = ''prototype'' \<and> f = ''constructor'' then ReadOnly
      else if k = ''caller'' \<or> k = ''arguments'' then Thrower
      else if k = ''__proto__'' then ProtoSetter
      else Creates)"

text \<open>The setter of \<open>__proto__\<close>: an object or \<open>null\<close> becomes the prototype, any
  other value is ignored.\<close>

definition setPrototypeOf :: "rowObject \<Rightarrow> cell \<Rightarrow> rowObject" where
  "setPrototypeOf obj v =
     (case v of
        Value (JObj p) \<Rightarrow> obj \<lparr> proto := PlainObject p \<rparr>
      | Value (JArr xs) \<Rightarrow> obj \<lparr> proto := PlainArray xs \<rparr>
      | Value JNull \<Rightarrow> obj \<lparr> proto := NullPrototype \<rparr>
      | Value _ \<Rightarrow> obj
      | Inherited f \<Rightarrow>
          obj \<lparr> proto := (if f = ''__proto__'' then ObjectPrototype else BuiltinFunction f) \<rparr>)"

text \<open>
  The assignment \<open>obj[k] = v\<close> in strict mode (the source is a module). An own entry
  is overwritten in place; otherwise the prototype chain decides: a new own entry is
  appended, the setter of \<open>__proto__\<close> runs, or a \<open>TypeError\<close> is thrown.
\<close>

definition setProp :: "rowObject \<Rightarrow> string \<Rightarrow> cell \<Rightarrow> exn + rowObject" where
  "setProp obj k v =
     (if k \<in> fst ` set (own obj) then Inr (obj \<lparr> own := AList.update k v (own obj) \<rparr>)
      else case chainSlot (proto obj) k of
             Creates \<Rightarrow> Inr (obj \<lparr> own := AList.update k v (own obj) \<rparr>)
           | ReadOnly \<Rightarrow> Inl TypeError
           | Thrower \<Rightarrow> Inl TypeError
           | ProtoSetter \<Rightarrow> Inr (setPrototypeOf obj v))"

text \<open>
  A parsed file. Its rows are objects; the merge route passes the rows of the request
  on unchecked, so a row can also be \<open>null\<close> (\<open>None\<close>), on which every read throws.
  Rows that are numbers, strings, booleans or arrays are outside this model.
\<close>

record ParsedFile =
  name :: string
  headers :: "string list"
  data :: "jsobject option list"
  rowCount :: int

record ColumnMapping =
  column1 :: string
  column2 :: string
  confidence :: real
  reason :: string
  mergedName :: string

record MergeResult =
  headers :: "string list"
  data :: "rowObject list"
  mappings :: "ColumnMapping list"
  rowCount :: int
  sourceFiles :: "string list"

subsection \<open>\<open>Map\<close>, \<open>Set\<close> and \<open>forEach\<close> of the runtime\<close>

text \<open>\<open>new Map(entries)\<close> inserts the entries in order, a later entry replacing an
  earlier one with the same key; \<open>has\<close> asks whether a key is bound.\<close>

definition newMap :: "('k \<times> 'v) list \<Rightarrow> ('k \<rightharpoonup> 'v)" where
  "newMap entries = fold (\<lambda>(k, v) m. m(k \<mapsto> v)) entries Map.empty"

definition has :: "('k \<rightharpoonup> 'v) \<Rightarrow> 'k \<Rightarrow> bool" where
  "has m k = (m k \<noteq> None)"

text \<open>\<open>xs.forEach(f)\<close> with a callback that updates a state and may throw: the first
  exception ends the loop.\<close>

fun forEach :: "('a \<Rightarrow> 's \<Rightarrow> exn + 's) \<Rightarrow> 'a list \<Rightarrow> 's \<Rightarrow> exn + 's" where
  "forEach f [] s = Inr s"
| "forEach f (x # xs) s = (case f x s of Inl e \<Rightarrow> Inl e | Inr s' \<Rightarrow> forEach f xs s')"

definition andThen :: "exn + 'a \<Rightarrow> ('a \<Rightarrow> exn + 'b) \<Rightarrow> exn + 'b" where
  "andThen r f = (case r of Inl e \<Rightarrow> Inl e | Inr v \<Rightarrow> f v)"

section \<open>\<open>mergeFiles\<close>\<close>

text \<open>The parameter \<open>mappings\<close> of the source is written \<open>ms\<close> below, since
  \<open>mappings\<close> is also a field of the result.\<close>

definition mappingMap :: "ColumnMapping list \<Rightarrow> (string \<rightharpoonup> string \<times> string)" where
  "mappingMap ms =
     newMap (map (\<lambda>m. (column2 m, (column1 m, mergedName m))) ms)"

definition usedColumns1 :: "ColumnMapping list \<Rightarrow> string set" where
  "usedColumns1 ms = set (map column1 ms)"

definition mergedHeaders :: "ParsedFile \<Rightarrow> ParsedFile \<Rightarrow> ColumnMapping list \<Rightarrow> string list" where
  "mergedHeaders file1 file2 ms =
     filter (\<lambda>h. h \<notin> usedColumns1 ms) (ParsedFile.headers file1)
     @ map mergedName ms
     @ filter (\<lambda>h. \<not> has (mappingMap ms) h) (ParsedFile.headers file2)"

text \<open>The read \<open>row[k]\<close> and the statement \<open>mergedRow[k] = e\<close>, where evaluating \<open>e\<close>
  may throw.\<close>

definition rowGet :: "jsobject option \<Rightarrow> string \<Rightarrow> exn + cell" where
  "rowGet row k = (case row of None \<Rightarrow> Inl TypeError | Some obj \<Rightarrow> Inr (getProp obj k))"

definition assign :: "rowObject \<Rightarrow> string \<Rightarrow> exn + cell \<Rightarrow> exn + rowObject" where
  "assign mergedRow k e = andThen e (setProp mergedRow k)"

text \<open>The callback of \<open>file1.data.forEach\<close>: three loops write into a fresh object.\<close>

definition rowFromFile1 ::
  "ParsedFile \<Rightarrow> ParsedFile \<Rightarrow> ColumnMapping list \<Rightarrow> jsobject option \<Rightarrow> exn + rowObject" where
  "rowFromFile1 file1 file2 ms row =
     andThen (forEach (\<lambda>header mergedRow.
                if header \<notin> usedColumns1 ms
                then assign mergedRow header (rowGet row header)
                else Inr mergedRow) (ParsedFile.headers file1) emptyObject)
       (\<lambda>mergedRow.
     andThen (forEach (\<lambda>mapping mergedRow.
                assign mergedRow (mergedName mapping) (rowGet row (column1 mapping)))
                ms mergedRow)
       (\<lambda>mergedRow.
     forEach (\<lambda>header mergedRow.
                if \<not> has (mappingMap ms) header
                then assign mergedRow header (Inr (Value JNull))
                else Inr mergedRow) (ParsedFile.headers file2) mergedRow))"

text \<open>The callback of \<open>file2.data.forEach\<close>.\<close>

definition rowFromFile2 ::
  "ParsedFile \<Rightarrow> ParsedFile \<Rightarrow> ColumnMapping list \<Rightarrow> jsobject option \<Rightarrow> exn + rowObject" where
  "rowFromFile2 file1 file2 ms row =
     andThen (forEach (\<lambda>header mergedRow.
                if header \<notin> usedColumns1 ms
                then assign mergedRow header (Inr (Value JNull))
                else Inr mergedRow) (ParsedFile.headers file1) emptyObject)
       (\<lambda>mergedRow.
     andThen (forEach (\<lambda>mapping mergedRow.
                assign mergedRow (mergedName mapping) (rowGet row (column2 mapping)))
                ms mergedRow)
       (\<lambda>mergedRow.
     forEach (\<lambda>header mergedRow.
                if \<not> has (mappingMap ms) header
                then assign mergedRow header (rowGet row header)
                else Inr mergedRow) (ParsedFile.headers file2) mergedRow))"

text \<open>\<open>mergedData.push(mergedRow)\<close> at the end of a callback that built \<open>mergedRow\<close>.\<close>

definition pushRow ::
  "(jsobject option \<Rightarrow> exn + rowObject) \<Rightarrow> jsobject option \<Rightarrow> rowObject list
     \<Rightarrow> exn + rowObject list" where
  "pushRow build row mergedData =
     andThen (build row) (\<lambda>mergedRow. Inr (mergedData @ [mergedRow]))"

definition mergeFiles ::
  "ParsedFile \<Rightarrow> ParsedFile \<Rightarrow> ColumnMapping list \<Rightarrow> exn + MergeResult" where
  "mergeFiles file1 file2 ms =
     andThen (forEach (pushRow (rowFromFile1 file1 file2 ms)) (ParsedFile.data file1) [])
       (\<lambda>mergedData.
     andThen (forEach (pushRow (rowFromFile2 file1 file2 ms)) (ParsedFile.data file2) mergedData)
       (\<lambda>mergedData.
     Inr \<lparr> MergeResult.headers = mergedHeaders file1 file2 ms,
           MergeResult.data = mergedData,
           mappings = ms,
           MergeResult.rowCount = int (length mergedData),
           sourceFiles = [ParsedFile.name file1, ParsedFile.name file2] \<rparr>))"

text \<open>What a caller sees of an outcome: the own entries of the rows that were returned,
  and the header list that was returned.\<close>

definition returnedRows :: "exn + MergeResult \<Rightarrow> exn + (string \<times> cell) list list" where
  "returnedRows outcome = map_sum id (\<lambda>result. map own (MergeResult.data result)) outcome"

definition returnedHeaders :: "exn + MergeResult \<Rightarrow> exn + string list" where
  "returnedHeaders outcome = map_sum id MergeResult.headers outcome"

text \<open>The columns of each file that no mapping consumes, as the spec names them.\<close>

definition unmapped1 :: "ParsedFile \<Rightarrow> ColumnMapping list \<Rightarrow> string list" where
  "unmapped1 file1 ms =
     filter (\<lambda>h. h \<notin> set (map column1 ms)) (ParsedFile.headers file1)"

definition unmapped2 :: "ParsedFile \<Rightarrow> ColumnMapping list \<Rightarrow> string list" where
  "unmapped2 file2 ms =
     filter (\<lambda>h. h \<notin> set (map column2 ms)) (ParsedFile.headers file2)"

text \<open>
  The invariants a correspondence list is assumed to satisfy (never checked by
  \<open>mergeFiles\<close>): every \<open>column1\<close> is a header of the first file, every \<open>column2\<close> a
  header of the second, and no source column is used twice.
\<close>

definition validCorrespondences :: "ParsedFile \<Rightarrow> ParsedFile \<Rightarrow> ColumnMapping list \<Rightarrow> bool" where
  "validCorrespondences file1 file2 ms \<longleftrightarrow>
     set (map column1 ms) \<subseteq> set (ParsedFile.headers file1)
     \<and> set (map column2 ms) \<subseteq> set (ParsedFile.headers file2)
     \<and> distinct (map column1 ms)
     \<and> distinct (map column2 ms)"

text \<open>
  Inputs on which no step of \<open>mergeFiles\<close> throws (a sufficient condition): every row
  is an object, and no output column is named \<open>__proto__\<close>.
\<close>

definition plainInputs :: "ParsedFile \<Rightarrow> ParsedFile \<Rightarrow> ColumnMapping list \<Rightarrow> bool" where
  "plainInputs file1 file2 ms \<longleftrightarrow>
     None \<notin> set (ParsedFile.data file1)
     \<and> None \<notin> set (ParsedFile.data file2)
     \<and> ''__proto__'' \<notin> set (mergedHeaders file1 file2 ms)"

section \<open>The merge route\<close>









section \<open>Example inputs\<close>

text \<open>The scenario of the specification: two one-row files and one correspondence.\<close>

definition scenarioA :: ParsedFile where
  "scenarioA = \<lparr> name = ''a.csv'', headers = [''email'', ''name''],
     data = [Some [(''email'', JStr ''a@x.com''), (''name'', JStr ''Ann'')]], rowCount = 1 \<rparr>"

definition scenarioB :: ParsedFile where
  "scenarioB = \<lparr> name = ''b.csv'', headers = [''e-mail'', ''age''],
     data = [Some [(''e-mail'', JStr ''b@x.com''), (''age'', JNum 30)]], rowCount = 1 \<rparr>"

definition scenarioMapping :: ColumnMapping where
  "scenarioMapping = \<lparr> column1 = ''email'', column2 = ''e-mail'', confidence = 9 / 10,
     reason = ''synonym'', mergedName = ''email'' \<rparr>"

text \<open>The same correspondence, but merged under the name of B's other column, and
  merged under the name \<open>__proto__\<close>.\<close>

definition mappingToAge :: ColumnMapping where
  "mappingToAge = scenarioMapping \<lparr> mergedName := ''age'' \<rparr>"

definition mappingToProto :: ColumnMapping where
  "mappingToProto = scenarioMapping \<lparr> mergedName := ''__proto__'' \<rparr>"

text \<open>Two files that both have a column \<open>id\<close> which no correspondence consumes.\<close>

definition sharedA :: ParsedFile where
  "sharedA = \<lparr> name = ''a.csv'', headers = [''id''],
     data = [Some [(''id'', JStr ''1'')]], rowCount = 1 \<rparr>"

definition sharedB :: ParsedFile where
  "sharedB = \<lparr> name = ''b.csv'', headers = [''id''],
     data = [Some [(''id'', JStr ''2'')]], rowCount = 1 \<rparr>"

text \<open>Two correspondences with the same merged name.\<close>

definition namesA :: ParsedFile where
  "namesA = \<lparr> name = ''a.csv'', headers = [''first'', ''last''],
     data = [Some [(''first'', JStr ''Ann''), (''last'', JStr ''Lee'')]], rowCount = 1 \<rparr>"

definition namesB :: ParsedFile where
  "namesB = \<lparr> name = ''b.csv'', headers = [''fname'', ''lname''],
     data = [Some [(''fname'', JStr ''Bob''), (''lname'', JStr ''Ray'')]], rowCount = 1 \<rparr>"

definition namesMappings :: "ColumnMapping list" where
  "namesMappings =
     [\<lparr> column1 = ''first'', column2 = ''fname'', confidence = 1,
        reason = ''synonym'', mergedName = ''name'' \<rparr>,
      \<lparr> column1 = ''last'', column2 = ''lname'', confidence = 1,
        reason = ''synonym'', mergedName = ''name'' \<rparr>]"

text \<open>The two files of the scenario with cells left out, as the rows of a spreadsheet
  with empty cells are parsed: each row lacks one of its file's two columns.\<close>

definition sparseA :: ParsedFile where
  "sparseA = \<lparr> name = ''a.xlsx'', headers = [''email'', ''name''],
     data = [Some [(''email'', JStr ''a@x.com'')], Some [(''name'', JStr ''Ann'')]],
     rowCount = 2 \<rparr>"

definition sparseB :: ParsedFile where
  "sparseB = \<lparr> name = ''b.xlsx'', headers = [''e-mail'', ''age''],
     data = [Some [(''e-mail'', JStr ''b@x.com'')], Some [(''age'', JNum 30)]],
     rowCount = 2 \<rparr>"

text \<open>A file with a column named \<open>__proto__\<close>, as a JSON request can carry it, and a
  file with one ordinary column.\<close>

definition protoA :: ParsedFile where
  "protoA = \<lparr> name = ''a.json'', headers = [''__proto__''],
     data = [Some [(''__proto__'', JStr ''x'')]], rowCount = 1 \<rparr>"

definition plainB :: ParsedFile where
  "plainB = \<lparr> name = ''b.json'', headers = [''y''],
     data = [Some [(''y'', JNum 1)]], rowCount = 1 \<rparr>"

text \<open>The first file of the scenario with a row that is \<open>null\<close>, and with a column
  \<open>constructor\<close> that its row has no cell for.\<close>

definition nullRowA :: ParsedFile where
  "nullRowA = \<lparr> name = ''a.csv'', headers = [''email'', ''name''],
     data = [None], rowCount = 1 \<rparr>"

definition constructorA :: ParsedFile where
  "constructorA = \<lparr> name = ''a.csv'', headers = [''email'', ''constructor''],
     data = [Some [(''email'', JStr ''a@x.com'')]], rowCount = 1 \<rparr>"

text \<open>
  Inputs of the declared types on which an assignment throws: the row has no cell for
  its column \<open>valueOf\<close>, so the read yields the inherited function; the correspondence
  assigns it to \<open>__proto__\<close>, which makes it the prototype of the output row; the
  assignment to the column \<open>name\<close> of the second file then finds the function's
  member \<open>name\<close>, which is not writable.
\<close>

definition valueOfA :: ParsedFile where
  "valueOfA = \<lparr> name = ''a.json'', headers = [''valueOf''],
     data = [Some []], rowCount = 1 \<rparr>"

definition nameB :: ParsedFile where
  "nameB = \<lparr> name = ''b.json'', headers = [''x'', ''name''],
     data = [], rowCount = 0 \<rparr>"

definition valueOfToProto :: ColumnMapping where
  "valueOfToProto = \<lparr> column1 = ''valueOf'', column2 = ''x'', confidence = 1,
     reason = ''synonym'', mergedName = ''__proto__'' \<rparr>"






section \<open>Facts about the runtime containers\<close>

lemma fold_fun_upd_bound:
  "(fold (\<lambda>(k, v) m. m(k \<mapsto> v)) es m0) k \<noteq> None \<longleftrightarrow> k \<in> fst ` set es \<or> m0 k \<noteq> None"
  by (induction es arbitrary: m0) (auto split: prod.splits)

lemma has_newMap: "has (newMap es) k \<longleftrightarrow> k \<in> fst ` set es"
  using fold_fun_upd_bound [of es Map.empty k] by (simp add: has_def newMap_def)

lemma has_mappingMap: "has (mappingMap ms) h \<longleftrightarrow> h \<in> set (map column2 ms)"
  by (simp add: mappingMap_def has_newMap image_image)

lemma andThen_Inr: "andThen r f = Inr y \<longleftrightarrow> (\<exists>v. r = Inr v \<and> f v = Inr y)"
  by (cases r) (simp_all add: andThen_def)

section \<open>Facts about assignments\<close>

lemma chainSlot_ProtoSetter: "chainSlot p k = ProtoSetter \<Longrightarrow> k = ''__proto__''"
  by (cases p) (auto split: if_splits)

lemma own_setPrototypeOf: "own (setPrototypeOf obj v) = own obj"
  by (simp add: setPrototypeOf_def split: cell.splits jsval.splits)

lemma setProp_own:
  assumes "setProp obj k v = Inr obj'"
  shows "own obj' = AList.update k v (own obj) \<or> (k = ''__proto__'' \<and> own obj' = own obj)"
proof (cases "k \<in> fst ` set (own obj)")
  case True
  with assms show ?thesis by (auto simp: setProp_def)
next
  case False
  show ?thesis
  proof (cases "chainSlot (proto obj) k")
    case Creates
    with False assms show ?thesis by (auto simp: setProp_def)
  next
    case ReadOnly
    with False assms show ?thesis by (simp add: setProp_def)
  next
    case ProtoSetter
    with False assms have "obj' = setPrototypeOf obj v" by (simp add: setProp_def)
    with ProtoSetter show ?thesis
      by (simp add: own_setPrototypeOf chainSlot_ProtoSetter)
  next
    case Thrower
    with False assms show ?thesis by (simp add: setProp_def)
  qed
qed

lemma ownField_setProp:
  assumes "setProp obj k v = Inr obj'" and "k' \<noteq> ''__proto__''"
  shows "ownField obj' k' = (if k' = k then Some v else ownField obj k')"
  using setProp_own [OF assms(1)] assms(2)
  by (auto simp: ownField_def update_conv')

lemma keys_setProp:
  assumes "setProp obj k v = Inr obj'"
  shows "keys obj \<subseteq> keys obj'" and "keys obj' \<subseteq> insert k (keys obj)"
    and "k \<noteq> ''__proto__'' \<Longrightarrow> k \<in> keys obj'"
proof -
  have "keys obj' = insert k (keys obj) \<or> (k = ''__proto__'' \<and> keys obj' = keys obj)"
  proof -
    have upd: "fst ` set (AList.update k v (own obj)) = insert k (fst ` set (own obj))"
      by (simp add: dom_update)
    from setProp_own [OF assms] show ?thesis
    proof
      assume "own obj' = AList.update k v (own obj)"
      with upd show ?thesis by (simp add: keys_def)
    next
      assume "k = ''__proto__'' \<and> own obj' = own obj"
      then show ?thesis by (simp add: keys_def)
    qed
  qed
  then show "keys obj \<subseteq> keys obj'" and "keys obj' \<subseteq> insert k (keys obj)"
    and "k \<noteq> ''__proto__'' \<Longrightarrow> k \<in> keys obj'"
    by auto
qed

lemma setProp_plain:
  assumes "proto obj = ObjectPrototype" and "k \<noteq> ''__proto__''"
  shows "\<exists>obj'. setProp obj k v = Inr obj' \<and> proto obj' = ObjectPrototype"
  using assms by (simp add: setProp_def)

lemma assign_Inr: "assign obj k e = Inr obj' \<longleftrightarrow> (\<exists>v. e = Inr v \<and> setProp obj k v = Inr obj')"
  by (simp add: assign_def andThen_Inr)

section \<open>Facts about the loops over headers and mappings\<close>

text \<open>A loop that assigns \<open>rd x\<close> to the member \<open>key x\<close> for every \<open>x\<close> that passes
  \<open>P\<close>.\<close>

lemma loop_untouched:
  assumes "forEach (\<lambda>x obj. if P x then assign obj (key x) (rd x) else Inr obj) xs obj0 = Inr obj'"
    and "k \<noteq> ''__proto__''" and "k \<notin> key ` {x \<in> set xs. P x}"
  shows "ownField obj' k = ownField obj0 k"
  using assms
proof (induction xs arbitrary: obj0)
  case Nil
  then show ?case by simp
next
  case (Cons y ys)
  from Cons.prems(3) have rest: "k \<notin> key ` {x \<in> set ys. P x}" by auto
  show ?case
  proof (cases "P y")
    case False
    with Cons.prems(1) have "forEach (\<lambda>x obj. if P x then assign obj (key x) (rd x) else Inr obj) ys obj0 = Inr obj'"
      by simp
    from Cons.IH [OF this Cons.prems(2) rest] show ?thesis .
  next
    case True
    with Cons.prems(1) obtain obj1 where
      step: "assign obj0 (key y) (rd y) = Inr obj1"
      and tail: "forEach (\<lambda>x obj. if P x then assign obj (key x) (rd x) else Inr obj) ys obj1 = Inr obj'"
      by (auto split: sum.splits)
    from step obtain v where "setProp obj0 (key y) v = Inr obj1" by (auto simp: assign_Inr)
    moreover from True Cons.prems(3) have "key y \<noteq> k" by auto
    ultimately have "ownField obj1 k = ownField obj0 k"
      using Cons.prems(2) by (simp add: ownField_setProp)
    with Cons.IH [OF tail Cons.prems(2) rest] show ?thesis by simp
  qed
qed

lemma loop_written:
  assumes "forEach (\<lambda>x obj. if P x then assign obj (key x) (rd x) else Inr obj) xs obj0 = Inr obj'"
    and "k \<noteq> ''__proto__''"
    and "\<exists>x \<in> set xs. P x \<and> key x = k"
    and "\<forall>x \<in> set xs. P x \<and> key x = k \<longrightarrow> rd x = Inr c"
  shows "ownField obj' k = Some c"
  using assms
proof (induction xs arbitrary: obj0)
  case Nil
  then show ?case by simp
next
  case (Cons y ys)
  have all: "\<forall>x \<in> set ys. P x \<and> key x = k \<longrightarrow> rd x = Inr c"
    using Cons.prems(4) by simp
  show ?case
  proof (cases "P y")
    case False
    with Cons.prems(1) have tail: "forEach (\<lambda>x obj. if P x then assign obj (key x) (rd x) else Inr obj) ys obj0 = Inr obj'"
      by simp
    from False Cons.prems(3) have "\<exists>x \<in> set ys. P x \<and> key x = k" by auto
    from Cons.IH [OF tail Cons.prems(2) this all] show ?thesis .
  next
    case True
    with Cons.prems(1) obtain obj1 where
      step: "assign obj0 (key y) (rd y) = Inr obj1"
      and tail: "forEach (\<lambda>x obj. if P x then assign obj (key x) (rd x) else Inr obj) ys obj1 = Inr obj'"
      by (auto split: sum.splits)
    show ?thesis
    proof (cases "\<exists>x \<in> set ys. P x \<and> key x = k")
      case True
      from Cons.IH [OF tail Cons.prems(2) True all] show ?thesis .
    next
      case False
      then have untouched: "k \<notin> key ` {x \<in> set ys. P x}" by auto
      from False Cons.prems(3) have here: "key y = k" by auto
      with \<open>P y\<close> Cons.prems(4) have "rd y = Inr c" by simp
      with step have "setProp obj0 (key y) c = Inr obj1" by (simp add: assign_Inr)
      then have "ownField obj1 k = Some c"
        using Cons.prems(2) here by (simp add: ownField_setProp)
      with loop_untouched [OF tail Cons.prems(2) untouched] show ?thesis by simp
    qed
  qed
qed

lemma loop_keys:
  assumes "forEach (\<lambda>x obj. if P x then assign obj (key x) (rd x) else Inr obj) xs obj0 = Inr obj'"
  shows "keys obj' \<subseteq> keys obj0 \<union> key ` {x \<in> set xs. P x}"
    and "keys obj0 \<union> (key ` {x \<in> set xs. P x} - {''__proto__''}) \<subseteq> keys obj'"
  using assms
proof (induction xs arbitrary: obj0)
  case Nil
  {
    case 1
    then show ?case by simp
  next
    case 2
    then show ?case by simp
  }
next
  case (Cons y ys)
  {
    case 1
    show ?case
    proof (cases "P y")
      case False
      with 1 have "forEach (\<lambda>x obj. if P x then assign obj (key x) (rd x) else Inr obj) ys obj0 = Inr obj'"
        by simp
      from Cons.IH(1) [OF this] False show ?thesis by auto
    next
      case True
      with 1 obtain obj1 where
        step: "assign obj0 (key y) (rd y) = Inr obj1"
        and tail: "forEach (\<lambda>x obj. if P x then assign obj (key x) (rd x) else Inr obj) ys obj1 = Inr obj'"
        by (auto split: sum.splits)
      from step obtain v where "setProp obj0 (key y) v = Inr obj1" by (auto simp: assign_Inr)
      from keys_setProp(2) [OF this] Cons.IH(1) [OF tail] True show ?thesis by auto
    qed
  next
    case 2
    show ?case
    proof (cases "P y")
      case False
      with 2 have "forEach (\<lambda>x obj. if P x then assign obj (key x) (rd x) else Inr obj) ys obj0 = Inr obj'"
        by simp
      from Cons.IH(2) [OF this] False show ?thesis by auto
    next
      case True
      with 2 obtain obj1 where
        step: "assign obj0 (key y) (rd y) = Inr obj1"
        and tail: "forEach (\<lambda>x obj. if P x then assign obj (key x) (rd x) else Inr obj) ys obj1 = Inr obj'"
        by (auto split: sum.splits)
      from step obtain v where sp: "setProp obj0 (key y) v = Inr obj1" by (auto simp: assign_Inr)
      from keys_setProp(1) [OF sp] keys_setProp(3) [OF sp] Cons.IH(2) [OF tail] True
      show ?thesis by auto
    qed
  }
qed

lemma loop_returns:
  assumes "proto obj0 = ObjectPrototype"
    and "\<forall>x \<in> set xs. P x \<longrightarrow> key x \<noteq> ''__proto__'' \<and> (\<exists>v. rd x = Inr v)"
  shows "\<exists>obj'. forEach (\<lambda>x obj. if P x then assign obj (key x) (rd x) else Inr obj) xs obj0 = Inr obj'
           \<and> proto obj' = ObjectPrototype"
  using assms
proof (induction xs arbitrary: obj0)
  case Nil
  then show ?case by simp
next
  case (Cons y ys)
  have rest: "\<forall>x \<in> set ys. P x \<longrightarrow> key x \<noteq> ''__proto__'' \<and> (\<exists>v. rd x = Inr v)"
    using Cons.prems(2) by simp
  show ?case
  proof (cases "P y")
    case False
    with Cons.IH [OF Cons.prems(1) rest] show ?thesis by simp
  next
    case True
    with Cons.prems(2) obtain v where v: "rd y = Inr v" and k: "key y \<noteq> ''__proto__''" by auto
    from setProp_plain [OF Cons.prems(1) k] obtain obj1 where
      sp: "setProp obj0 (key y) v = Inr obj1" and p1: "proto obj1 = ObjectPrototype" by blast
    from sp v have "assign obj0 (key y) (rd y) = Inr obj1" by (simp add: assign_Inr)
    with True Cons.IH [OF p1 rest] show ?thesis by simp
  qed
qed

text \<open>The same facts for a loop without a condition.\<close>

lemma loop_all_untouched:
  assumes "forEach (\<lambda>x obj. assign obj (key x) (rd x)) xs obj0 = Inr obj'"
    and "k \<noteq> ''__proto__''" and "k \<notin> key ` set xs"
  shows "ownField obj' k = ownField obj0 k"
  using loop_untouched [where P = "\<lambda>_. True" and key = key and rd = rd and xs = xs
      and ?obj0.0 = obj0 and obj' = obj' and k = k] assms
  by simp

lemma loop_all_written:
  assumes "forEach (\<lambda>x obj. assign obj (key x) (rd x)) xs obj0 = Inr obj'"
    and "k \<noteq> ''__proto__''"
    and "\<exists>x \<in> set xs. key x = k"
    and "\<forall>x \<in> set xs. key x = k \<longrightarrow> rd x = Inr c"
  shows "ownField obj' k = Some c"
  using loop_written [where P = "\<lambda>_. True" and key = key and rd = rd and xs = xs
      and ?obj0.0 = obj0 and obj' = obj' and k = k and c = c] assms
  by simp

lemma loop_all_keys:
  assumes "forEach (\<lambda>x obj. assign obj (key x) (rd x)) xs obj0 = Inr obj'"
  shows "keys obj' \<subseteq> keys obj0 \<union> key ` set xs"
    and "keys obj0 \<union> (key ` set xs - {''__proto__''}) \<subseteq> keys obj'"
  using loop_keys [where P = "\<lambda>_. True" and key = key and rd = rd and xs = xs
      and ?obj0.0 = obj0 and obj' = obj'] assms
  by simp_all

lemma loop_all_returns:
  assumes "proto obj0 = ObjectPrototype"
    and "\<forall>x \<in> set xs. key x \<noteq> ''__proto__'' \<and> (\<exists>v. rd x = Inr v)"
  shows "\<exists>obj'. forEach (\<lambda>x obj. assign obj (key x) (rd x)) xs obj0 = Inr obj'
           \<and> proto obj' = ObjectPrototype"
  using loop_returns [where P = "\<lambda>_. True" and key = key and rd = rd and xs = xs
      and ?obj0.0 = obj0] assms
  by simp

section \<open>Facts about the rows that \<open>mergeFiles\<close> builds\<close>

lemma unmapped1_image:
  "(\<lambda>h. h) ` {h \<in> set (ParsedFile.headers file1). h \<notin> usedColumns1 ms} = set (unmapped1 file1 ms)"
  by (auto simp: unmapped1_def usedColumns1_def)

lemma unmapped2_image:
  "(\<lambda>h. h) ` {h \<in> set (ParsedFile.headers file2). \<not> has (mappingMap ms) h}
     = set (unmapped2 file2 ms)"
  by (auto simp: unmapped2_def has_mappingMap)

lemma set_mergedHeaders:
  "set (mergedHeaders file1 file2 ms)
     = set (unmapped1 file1 ms) \<union> mergedName ` set ms \<union> set (unmapped2 file2 ms)"
  by (auto simp: mergedHeaders_def unmapped1_def unmapped2_def usedColumns1_def has_mappingMap)

lemma ownField_emptyObject: "ownField emptyObject k = None"
  by (simp add: ownField_def emptyObject_def)

lemma keys_emptyObject: "keys emptyObject = {}"
  by (simp add: keys_def emptyObject_def)

lemma distinct_map_eq:
  "distinct (map f xs) \<Longrightarrow> x \<in> set xs \<Longrightarrow> y \<in> set xs \<Longrightarrow> f x = f y \<Longrightarrow> x = y"
  by (meson distinct_map inj_onD)

lemma ownField_keys: "ownField obj k = Some c \<Longrightarrow> k \<in> keys obj"
  by (auto simp: ownField_def keys_def dest: map_of_SomeD intro: rev_image_eqI)

text \<open>The three loops of a callback, one after the other.\<close>

lemma rowFromFile1_Inr:
  assumes "rowFromFile1 file1 file2 ms row = Inr mergedRow"
  obtains r1 r2 where
    "forEach (\<lambda>header obj. if header \<notin> usedColumns1 ms
                then assign obj header (rowGet row header) else Inr obj)
       (ParsedFile.headers file1) emptyObject = Inr r1"
    "forEach (\<lambda>mapping obj. assign obj (mergedName mapping) (rowGet row (column1 mapping)))
       ms r1 = Inr r2"
    "forEach (\<lambda>header obj. if \<not> has (mappingMap ms) header
                then assign obj header (Inr (Value JNull)) else Inr obj)
       (ParsedFile.headers file2) r2 = Inr mergedRow"
  using assms unfolding rowFromFile1_def andThen_Inr by blast

lemma rowFromFile2_Inr:
  assumes "rowFromFile2 file1 file2 ms row = Inr mergedRow"
  obtains r1 r2 where
    "forEach (\<lambda>header obj. if header \<notin> usedColumns1 ms
                then assign obj header (Inr (Value JNull)) else Inr obj)
       (ParsedFile.headers file1) emptyObject = Inr r1"
    "forEach (\<lambda>mapping obj. assign obj (mergedName mapping) (rowGet row (column2 mapping)))
       ms r1 = Inr r2"
    "forEach (\<lambda>header obj. if \<not> has (mappingMap ms) header
                then assign obj header (rowGet row header) else Inr obj)
       (ParsedFile.headers file2) r2 = Inr mergedRow"
  using assms unfolding rowFromFile2_def andThen_Inr by blast

lemma keys_rowFromFile1:
  assumes "rowFromFile1 file1 file2 ms row = Inr mergedRow"
  shows "keys mergedRow \<subseteq> set (mergedHeaders file1 file2 ms)"
    and "set (mergedHeaders file1 file2 ms) - {''__proto__''} \<subseteq> keys mergedRow"
proof -
  from assms obtain r1 r2 where
    l1: "forEach (\<lambda>header obj. if header \<notin> usedColumns1 ms
                then assign obj header (rowGet row header) else Inr obj)
       (ParsedFile.headers file1) emptyObject = Inr r1"
    and l2: "forEach (\<lambda>mapping obj. assign obj (mergedName mapping) (rowGet row (column1 mapping)))
       ms r1 = Inr r2"
    and l3: "forEach (\<lambda>header obj. if \<not> has (mappingMap ms) header
                then assign obj header (Inr (Value JNull)) else Inr obj)
       (ParsedFile.headers file2) r2 = Inr mergedRow"
    by (rule rowFromFile1_Inr)
  note k1 = loop_keys [OF l1, unfolded unmapped1_image keys_emptyObject]
  note k2 = loop_all_keys [OF l2]
  note k3 = loop_keys [OF l3, unfolded unmapped2_image]
  from k1(1) k2(1) k3(1) show "keys mergedRow \<subseteq> set (mergedHeaders file1 file2 ms)"
    unfolding set_mergedHeaders by blast
  from k1(2) k2(2) k3(2)
  show "set (mergedHeaders file1 file2 ms) - {''__proto__''} \<subseteq> keys mergedRow"
    unfolding set_mergedHeaders by blast
qed

lemma keys_rowFromFile2:
  assumes "rowFromFile2 file1 file2 ms row = Inr mergedRow"
  shows "keys mergedRow \<subseteq> set (mergedHeaders file1 file2 ms)"
    and "set (mergedHeaders file1 file2 ms) - {''__proto__''} \<subseteq> keys mergedRow"
proof -
  from assms obtain r1 r2 where
    l1: "forEach (\<lambda>header obj. if header \<notin> usedColumns1 ms
                then assign obj header (Inr (Value JNull)) else Inr obj)
       (ParsedFile.headers file1) emptyObject = Inr r1"
    and l2: "forEach (\<lambda>mapping obj. assign obj (mergedName mapping) (rowGet row (column2 mapping)))
       ms r1 = Inr r2"
    and l3: "forEach (\<lambda>header obj. if \<not> has (mappingMap ms) header
                then assign obj header (rowGet row header) else Inr obj)
       (ParsedFile.headers file2) r2 = Inr mergedRow"
    by (rule rowFromFile2_Inr)
  note k1 = loop_keys [OF l1, unfolded unmapped1_image keys_emptyObject]
  note k2 = loop_all_keys [OF l2]
  note k3 = loop_keys [OF l3, unfolded unmapped2_image]
  from k1(1) k2(1) k3(1) show "keys mergedRow \<subseteq> set (mergedHeaders file1 file2 ms)"
    unfolding set_mergedHeaders by blast
  from k1(2) k2(2) k3(2)
  show "set (mergedHeaders file1 file2 ms) - {''__proto__''} \<subseteq> keys mergedRow"
    unfolding set_mergedHeaders by blast
qed

text \<open>What the last loop writes is what the row holds.\<close>

lemma rowFromFile1_unmapped2:
  assumes "rowFromFile1 file1 file2 ms row = Inr mergedRow"
    and "h \<in> set (unmapped2 file2 ms)" and "h \<noteq> ''__proto__''"
  shows "ownField mergedRow h = Some (Value JNull)"
proof -
  from assms(1) obtain r2 where
    l3: "forEach (\<lambda>header obj. if \<not> has (mappingMap ms) header
                then assign obj header (Inr (Value JNull)) else Inr obj)
       (ParsedFile.headers file2) r2 = Inr mergedRow"
    by (rule rowFromFile1_Inr)
  from assms(2) have "\<exists>x \<in> set (ParsedFile.headers file2). \<not> has (mappingMap ms) x \<and> x = h"
    by (simp add: unmapped2_def has_mappingMap)
  from loop_written [OF l3 assms(3) this] show ?thesis by simp
qed

lemma rowFromFile2_unmapped2:
  assumes "rowFromFile2 file1 file2 ms (Some row) = Inr mergedRow"
    and "h \<in> set (unmapped2 file2 ms)" and "h \<noteq> ''__proto__''"
  shows "ownField mergedRow h = Some (getProp row h)"
proof -
  from assms(1) obtain r2 where
    l3: "forEach (\<lambda>header obj. if \<not> has (mappingMap ms) header
                then assign obj header (rowGet (Some row) header) else Inr obj)
       (ParsedFile.headers file2) r2 = Inr mergedRow"
    by (rule rowFromFile2_Inr)
  from assms(2) have "\<exists>x \<in> set (ParsedFile.headers file2). \<not> has (mappingMap ms) x \<and> x = h"
    by (simp add: unmapped2_def has_mappingMap)
  from loop_written [OF l3 assms(3) this, of "getProp row h"] show ?thesis
    by (simp add: rowGet_def)
qed

text \<open>What the second loop writes stays, unless the third loop writes the same name.\<close>

lemma rowFromFile1_mapped:
  assumes "rowFromFile1 file1 file2 ms (Some row) = Inr mergedRow"
    and "m \<in> set ms" and "distinct (map mergedName ms)"
    and "mergedName m \<notin> set (unmapped2 file2 ms)" and "mergedName m \<noteq> ''__proto__''"
  shows "ownField mergedRow (mergedName m) = Some (getProp row (column1 m))"
proof -
  from assms(1) obtain r1 r2 where
    l2: "forEach (\<lambda>mapping obj. assign obj (mergedName mapping)
                    (rowGet (Some row) (column1 mapping))) ms r1 = Inr r2"
    and l3: "forEach (\<lambda>header obj. if \<not> has (mappingMap ms) header
                then assign obj header (Inr (Value JNull)) else Inr obj)
       (ParsedFile.headers file2) r2 = Inr mergedRow"
    by (rule rowFromFile1_Inr)
  have "mergedName m \<notin> (\<lambda>h. h) ` {h \<in> set (ParsedFile.headers file2). \<not> has (mappingMap ms) h}"
    unfolding unmapped2_image by (rule assms(4))
  from loop_untouched [OF l3 assms(5) this]
  have "ownField mergedRow (mergedName m) = ownField r2 (mergedName m)" .
  also have "\<dots> = Some (getProp row (column1 m))"
  proof (rule loop_all_written [OF l2 assms(5)])
    from assms(2) show "\<exists>x \<in> set ms. mergedName x = mergedName m" by blast
    show "\<forall>x \<in> set ms. mergedName x = mergedName m
            \<longrightarrow> rowGet (Some row) (column1 x) = Inr (getProp row (column1 m))"
      using assms(2,3) by (auto simp: rowGet_def dest: distinct_map_eq)
  qed
  finally show ?thesis .
qed

lemma rowFromFile2_mapped:
  assumes "rowFromFile2 file1 file2 ms (Some row) = Inr mergedRow"
    and "m \<in> set ms" and "distinct (map mergedName ms)"
    and "mergedName m \<notin> set (unmapped2 file2 ms)" and "mergedName m \<noteq> ''__proto__''"
  shows "ownField mergedRow (mergedName m) = Some (getProp row (column2 m))"
proof -
  from assms(1) obtain r1 r2 where
    l2: "forEach (\<lambda>mapping obj. assign obj (mergedName mapping)
                    (rowGet (Some row) (column2 mapping))) ms r1 = Inr r2"
    and l3: "forEach (\<lambda>header obj. if \<not> has (mappingMap ms) header
                then assign obj header (rowGet (Some row) header) else Inr obj)
       (ParsedFile.headers file2) r2 = Inr mergedRow"
    by (rule rowFromFile2_Inr)
  have "mergedName m \<notin> (\<lambda>h. h) ` {h \<in> set (ParsedFile.headers file2). \<not> has (mappingMap ms) h}"
    unfolding unmapped2_image by (rule assms(4))
  from loop_untouched [OF l3 assms(5) this]
  have "ownField mergedRow (mergedName m) = ownField r2 (mergedName m)" .
  also have "\<dots> = Some (getProp row (column2 m))"
  proof (rule loop_all_written [OF l2 assms(5)])
    from assms(2) show "\<exists>x \<in> set ms. mergedName x = mergedName m" by blast
    show "\<forall>x \<in> set ms. mergedName x = mergedName m
            \<longrightarrow> rowGet (Some row) (column2 x) = Inr (getProp row (column2 m))"
      using assms(2,3) by (auto simp: rowGet_def dest: distinct_map_eq)
  qed
  finally show ?thesis .
qed

text \<open>What the first loop writes stays, unless a later loop writes the same name.\<close>

lemma rowFromFile1_unmapped1:
  assumes "rowFromFile1 file1 file2 ms (Some row) = Inr mergedRow"
    and "h \<in> set (unmapped1 file1 ms)" and "h \<notin> set (map mergedName ms)"
    and "h \<notin> set (unmapped2 file2 ms)" and "h \<noteq> ''__proto__''"
  shows "ownField mergedRow h = Some (getProp row h)"
proof -
  from assms(1) obtain r1 r2 where
    l1: "forEach (\<lambda>header obj. if header \<notin> usedColumns1 ms
                then assign obj header (rowGet (Some row) header) else Inr obj)
       (ParsedFile.headers file1) emptyObject = Inr r1"
    and l2: "forEach (\<lambda>mapping obj. assign obj (mergedName mapping)
                    (rowGet (Some row) (column1 mapping))) ms r1 = Inr r2"
    and l3: "forEach (\<lambda>header obj. if \<not> has (mappingMap ms) header
                then assign obj header (Inr (Value JNull)) else Inr obj)
       (ParsedFile.headers file2) r2 = Inr mergedRow"
    by (rule rowFromFile1_Inr)
  have "h \<notin> (\<lambda>h. h) ` {h \<in> set (ParsedFile.headers file2). \<not> has (mappingMap ms) h}"
    unfolding unmapped2_image by (rule assms(4))
  from loop_untouched [OF l3 assms(5) this]
  have "ownField mergedRow h = ownField r2 h" .
  also from assms(3) have "h \<notin> mergedName ` set ms" by simp
  from loop_all_untouched [OF l2 assms(5) this]
  have "ownField r2 h = ownField r1 h" .
  also have "ownField r1 h = Some (getProp row h)"
  proof -
    from assms(2) have "\<exists>x \<in> set (ParsedFile.headers file1). x \<notin> usedColumns1 ms \<and> x = h"
      by (simp add: unmapped1_def usedColumns1_def)
    from loop_written [OF l1 assms(5) this, of "getProp row h"] show ?thesis
      by (simp add: rowGet_def)
  qed
  finally show ?thesis .
qed

lemma rowFromFile2_unmapped1:
  assumes "rowFromFile2 file1 file2 ms row = Inr mergedRow"
    and "h \<in> set (unmapped1 file1 ms)" and "h \<notin> set (map mergedName ms)"
    and "h \<notin> set (unmapped2 file2 ms)" and "h \<noteq> ''__proto__''"
  shows "ownField mergedRow h = Some (Value JNull)"
proof -
  from assms(1) obtain r1 r2 where
    l1: "forEach (\<lambda>header obj. if header \<notin> usedColumns1 ms
                then assign obj header (Inr (Value JNull)) else Inr obj)
       (ParsedFile.headers file1) emptyObject = Inr r1"
    and l2: "forEach (\<lambda>mapping obj. assign obj (mergedName mapping)
                    (rowGet row (column2 mapping))) ms r1 = Inr r2"
    and l3: "forEach (\<lambda>header obj. if \<not> has (mappingMap ms) header
                then assign obj header (rowGet row header) else Inr obj)
       (ParsedFile.headers file2) r2 = Inr mergedRow"
    by (rule rowFromFile2_Inr)
  have "h \<notin> (\<lambda>h. h) ` {h \<in> set (ParsedFile.headers file2). \<not> has (mappingMap ms) h}"
    unfolding unmapped2_image by (rule assms(4))
  from loop_untouched [OF l3 assms(5) this]
  have "ownField mergedRow h = ownField r2 h" .
  also from assms(3) have "h \<notin> mergedName ` set ms" by simp
  from loop_all_untouched [OF l2 assms(5) this]
  have "ownField r2 h = ownField r1 h" .
  also have "ownField r1 h = Some (Value JNull)"
  proof -
    from assms(2) have "\<exists>x \<in> set (ParsedFile.headers file1). x \<notin> usedColumns1 ms \<and> x = h"
      by (simp add: unmapped1_def usedColumns1_def)
    from loop_written [OF l1 assms(5) this] show ?thesis by simp
  qed
  finally show ?thesis .
qed

text \<open>On an object row, with no output column named \<open>__proto__\<close>, a callback returns.\<close>

lemma rowFromFile1_returns:
  assumes "''__proto__'' \<notin> set (mergedHeaders file1 file2 ms)"
  shows "\<exists>mergedRow. rowFromFile1 file1 file2 ms (Some row) = Inr mergedRow"
proof -
  from assms have n1: "''__proto__'' \<notin> set (unmapped1 file1 ms)"
    and n2: "''__proto__'' \<notin> mergedName ` set ms"
    and n3: "''__proto__'' \<notin> set (unmapped2 file2 ms)"
    by (simp_all add: set_mergedHeaders)
  have "\<forall>x \<in> set (ParsedFile.headers file1). x \<notin> usedColumns1 ms
          \<longrightarrow> x \<noteq> ''__proto__'' \<and> (\<exists>v. rowGet (Some row) x = Inr v)"
    using n1 by (auto simp: unmapped1_def usedColumns1_def rowGet_def)
  from loop_returns [OF _ this, of emptyObject] obtain r1 where
    l1: "forEach (\<lambda>header obj. if header \<notin> usedColumns1 ms
                then assign obj header (rowGet (Some row) header) else Inr obj)
       (ParsedFile.headers file1) emptyObject = Inr r1"
    and p1: "proto r1 = ObjectPrototype"
    by (auto simp: emptyObject_def)
  from n2 have "\<forall>x \<in> set ms. mergedName x \<noteq> ''__proto__''" by (metis imageI)
  then have "\<forall>x \<in> set ms. mergedName x \<noteq> ''__proto__'' \<and> (\<exists>v. rowGet (Some row) (column1 x) = Inr v)"
    by (simp add: rowGet_def)
  from loop_all_returns [OF p1 this] obtain r2 where
    l2: "forEach (\<lambda>mapping obj. assign obj (mergedName mapping)
                    (rowGet (Some row) (column1 mapping))) ms r1 = Inr r2"
    and p2: "proto r2 = ObjectPrototype"
    by blast
  have "\<forall>x \<in> set (ParsedFile.headers file2). \<not> has (mappingMap ms) x
          \<longrightarrow> x \<noteq> ''__proto__'' \<and> (\<exists>v. (Inr (Value JNull) :: exn + cell) = Inr v)"
    using n3 by (auto simp: unmapped2_def has_mappingMap)
  from loop_returns [OF p2 this] obtain r3 where
    l3: "forEach (\<lambda>header obj. if \<not> has (mappingMap ms) header
                then assign obj header (Inr (Value JNull)) else Inr obj)
       (ParsedFile.headers file2) r2 = Inr r3"
    by blast
  from l1 l2 l3 show ?thesis
    by (auto simp: rowFromFile1_def andThen_Inr)
qed

lemma rowFromFile2_returns:
  assumes "''__proto__'' \<notin> set (mergedHeaders file1 file2 ms)"
  shows "\<exists>mergedRow. rowFromFile2 file1 file2 ms (Some row) = Inr mergedRow"
proof -
  from assms have n1: "''__proto__'' \<notin> set (unmapped1 file1 ms)"
    and n2: "''__proto__'' \<notin> mergedName ` set ms"
    and n3: "''__proto__'' \<notin> set (unmapped2 file2 ms)"
    by (simp_all add: set_mergedHeaders)
  have "\<forall>x \<in> set (ParsedFile.headers file1). x \<notin> usedColumns1 ms
          \<longrightarrow> x \<noteq> ''__proto__'' \<and> (\<exists>v. (Inr (Value JNull) :: exn + cell) = Inr v)"
    using n1 by (auto simp: unmapped1_def usedColumns1_def)
  from loop_returns [OF _ this, of emptyObject] obtain r1 where
    l1: "forEach (\<lambda>header obj. if header \<notin> usedColumns1 ms
                then assign obj header (Inr (Value JNull)) else Inr obj)
       (ParsedFile.headers file1) emptyObject = Inr r1"
    and p1: "proto r1 = ObjectPrototype"
    by (auto simp: emptyObject_def)
  from n2 have "\<forall>x \<in> set ms. mergedName x \<noteq> ''__proto__''" by (metis imageI)
  then have "\<forall>x \<in> set ms. mergedName x \<noteq> ''__proto__'' \<and> (\<exists>v. rowGet (Some row) (column2 x) = Inr v)"
    by (simp add: rowGet_def)
  from loop_all_returns [OF p1 this] obtain r2 where
    l2: "forEach (\<lambda>mapping obj. assign obj (mergedName mapping)
                    (rowGet (Some row) (column2 mapping))) ms r1 = Inr r2"
    and p2: "proto r2 = ObjectPrototype"
    by blast
  have "\<forall>x \<in> set (ParsedFile.headers file2). \<not> has (mappingMap ms) x
          \<longrightarrow> x \<noteq> ''__proto__'' \<and> (\<exists>v. rowGet (Some row) x = Inr v)"
    using n3 by (auto simp: unmapped2_def has_mappingMap rowGet_def)
  from loop_returns [OF p2 this] obtain r3 where
    l3: "forEach (\<lambda>header obj. if \<not> has (mappingMap ms) header
                then assign obj header (rowGet (Some row) header) else Inr obj)
       (ParsedFile.headers file2) r2 = Inr r3"
    by blast
  from l1 l2 l3 show ?thesis
    by (auto simp: rowFromFile2_def andThen_Inr)
qed

section \<open>Facts about the result of \<open>mergeFiles\<close>\<close>

lemma pushRow_step:
  "pushRow build row acc
     = (case build row of Inl e \<Rightarrow> Inl e | Inr mergedRow \<Rightarrow> Inr (acc @ [mergedRow]))"
  by (simp add: pushRow_def andThen_def)

lemma forEach_pushRow:
  "forEach (pushRow build) rows acc = Inr res
     \<longleftrightarrow> (\<exists>built. list_all2 (\<lambda>row mergedRow. build row = Inr mergedRow) rows built
                  \<and> res = acc @ built)"
proof (induction rows arbitrary: acc)
  case Nil
  then show ?case by auto
next
  case (Cons row rows)
  show ?case
  proof (cases "build row")
    case (Inl e)
    then show ?thesis by (simp add: pushRow_step list_all2_Cons1)
  next
    case (Inr mergedRow)
    have "forEach (pushRow build) (row # rows) acc = forEach (pushRow build) rows (acc @ [mergedRow])"
      using Inr by (simp add: pushRow_step)
    also have "\<dots> = Inr res
      \<longleftrightarrow> (\<exists>built. list_all2 (\<lambda>row mergedRow. build row = Inr mergedRow) rows built
                  \<and> res = (acc @ [mergedRow]) @ built)"
      by (rule Cons.IH)
    also have "\<dots> \<longleftrightarrow> (\<exists>built. list_all2 (\<lambda>row mergedRow. build row = Inr mergedRow) (row # rows) built
                  \<and> res = acc @ built)"
      using Inr by (auto simp: list_all2_Cons1)
    finally show ?thesis .
  qed
qed

lemma mergeFiles_Inr:
  assumes "mergeFiles file1 file2 ms = Inr result"
  obtains rows1 rows2 where
    "list_all2 (\<lambda>row mergedRow. rowFromFile1 file1 file2 ms row = Inr mergedRow)
       (ParsedFile.data file1) rows1"
    "list_all2 (\<lambda>row mergedRow. rowFromFile2 file1 file2 ms row = Inr mergedRow)
       (ParsedFile.data file2) rows2"
    "result = \<lparr> MergeResult.headers = mergedHeaders file1 file2 ms,
                MergeResult.data = rows1 @ rows2,
                mappings = ms,
                MergeResult.rowCount = int (length (rows1 @ rows2)),
                sourceFiles = [ParsedFile.name file1, ParsedFile.name file2] \<rparr>"
  using assms unfolding mergeFiles_def andThen_Inr forEach_pushRow by auto

lemma mergeFiles_headers:
  "mergeFiles file1 file2 ms = Inr result \<Longrightarrow>
   MergeResult.headers result = mergedHeaders file1 file2 ms"
  by (erule mergeFiles_Inr) simp

lemma mergeFiles_length:
  assumes "mergeFiles file1 file2 ms = Inr result"
  shows "length (MergeResult.data result)
           = length (ParsedFile.data file1) + length (ParsedFile.data file2)"
    and "MergeResult.rowCount result = int (length (MergeResult.data result))"
proof -
  from assms obtain rows1 rows2 where
    a: "list_all2 (\<lambda>row mergedRow. rowFromFile1 file1 file2 ms row = Inr mergedRow)
       (ParsedFile.data file1) rows1"
    and b: "list_all2 (\<lambda>row mergedRow. rowFromFile2 file1 file2 ms row = Inr mergedRow)
       (ParsedFile.data file2) rows2"
    and d: "MergeResult.data result = rows1 @ rows2"
    and c: "MergeResult.rowCount result = int (length (rows1 @ rows2))"
    by (auto elim!: mergeFiles_Inr)
  from a b have "length rows1 = length (ParsedFile.data file1)"
    "length rows2 = length (ParsedFile.data file2)"
    by (simp_all add: list_all2_lengthD)
  with d show "length (MergeResult.data result)
           = length (ParsedFile.data file1) + length (ParsedFile.data file2)"
    by simp
  from c d show "MergeResult.rowCount result = int (length (MergeResult.data result))"
    by simp
qed

lemma mergeFiles_nth1:
  assumes "mergeFiles file1 file2 ms = Inr result" and "i < length (ParsedFile.data file1)"
  shows "rowFromFile1 file1 file2 ms (ParsedFile.data file1 ! i)
           = Inr (MergeResult.data result ! i)"
proof -
  from assms(1) obtain rows1 rows2 where
    a: "list_all2 (\<lambda>row mergedRow. rowFromFile1 file1 file2 ms row = Inr mergedRow)
       (ParsedFile.data file1) rows1"
    and d: "MergeResult.data result = rows1 @ rows2"
    by (auto elim!: mergeFiles_Inr)
  from a assms(2) have "i < length rows1" by (simp add: list_all2_lengthD)
  with d have "MergeResult.data result ! i = rows1 ! i" by (simp add: nth_append)
  with list_all2_nthD [OF a assms(2)] show ?thesis by simp
qed

lemma mergeFiles_nth2:
  assumes "mergeFiles file1 file2 ms = Inr result" and "j < length (ParsedFile.data file2)"
  shows "rowFromFile2 file1 file2 ms (ParsedFile.data file2 ! j)
           = Inr (MergeResult.data result ! (length (ParsedFile.data file1) + j))"
proof -
  from assms(1) obtain rows1 rows2 where
    a: "list_all2 (\<lambda>row mergedRow. rowFromFile1 file1 file2 ms row = Inr mergedRow)
       (ParsedFile.data file1) rows1"
    and b: "list_all2 (\<lambda>row mergedRow. rowFromFile2 file1 file2 ms row = Inr mergedRow)
       (ParsedFile.data file2) rows2"
    and d: "MergeResult.data result = rows1 @ rows2"
    by (auto elim!: mergeFiles_Inr)
  from a have "length rows1 = length (ParsedFile.data file1)" by (simp add: list_all2_lengthD)
  with d have "MergeResult.data result ! (length (ParsedFile.data file1) + j) = rows2 ! j"
    by (simp add: nth_append)
  with list_all2_nthD [OF b assms(2)] show ?thesis by simp
qed

lemma mergeFiles_row:
  assumes "mergeFiles file1 file2 ms = Inr result" and "mergedRow \<in> set (MergeResult.data result)"
  shows "(\<exists>row. rowFromFile1 file1 file2 ms row = Inr mergedRow)
       \<or> (\<exists>row. rowFromFile2 file1 file2 ms row = Inr mergedRow)"
proof -
  from assms(1) obtain rows1 rows2 where
    a: "list_all2 (\<lambda>row mergedRow. rowFromFile1 file1 file2 ms row = Inr mergedRow)
       (ParsedFile.data file1) rows1"
    and b: "list_all2 (\<lambda>row mergedRow. rowFromFile2 file1 file2 ms row = Inr mergedRow)
       (ParsedFile.data file2) rows2"
    and d: "MergeResult.data result = rows1 @ rows2"
    by (auto elim!: mergeFiles_Inr)
  from assms(2) d consider "mergedRow \<in> set rows1" | "mergedRow \<in> set rows2" by auto
  then show ?thesis
  proof cases
    case 1
    then obtain i where "i < length rows1" "rows1 ! i = mergedRow" by (auto simp: in_set_conv_nth)
    with a show ?thesis by (auto simp: list_all2_conv_all_nth)
  next
    case 2
    then obtain i where "i < length rows2" "rows2 ! i = mergedRow" by (auto simp: in_set_conv_nth)
    with b show ?thesis by (auto simp: list_all2_conv_all_nth)
  qed
qed

lemma build_all:
  assumes "\<forall>row \<in> set rows. \<exists>mergedRow. build row = Inr mergedRow"
  shows "\<exists>built. list_all2 (\<lambda>row mergedRow. build row = Inr mergedRow) rows built"
  using assms
proof (induction rows)
  case Nil
  then show ?case by simp
next
  case (Cons row rows)
  then obtain mergedRow built where "build row = Inr mergedRow"
    "list_all2 (\<lambda>row mergedRow. build row = Inr mergedRow) rows built"
    by auto
  then have "list_all2 (\<lambda>row mergedRow. build row = Inr mergedRow) (row # rows) (mergedRow # built)"
    by simp
  then show ?case by blast
qed

lemma mergeFiles_returns:
  assumes "plainInputs file1 file2 ms"
  shows "\<exists>result. mergeFiles file1 file2 ms = Inr result"
proof -
  from assms have np: "''__proto__'' \<notin> set (mergedHeaders file1 file2 ms)"
    and o1: "None \<notin> set (ParsedFile.data file1)" and o2: "None \<notin> set (ParsedFile.data file2)"
    by (simp_all add: plainInputs_def)
  have "\<forall>row \<in> set (ParsedFile.data file1). \<exists>mergedRow. rowFromFile1 file1 file2 ms row = Inr mergedRow"
  proof
    fix row assume "row \<in> set (ParsedFile.data file1)"
    with o1 obtain obj where "row = Some obj" by (cases row) auto
    with rowFromFile1_returns [OF np] show "\<exists>mergedRow. rowFromFile1 file1 file2 ms row = Inr mergedRow"
      by simp
  qed
  from build_all [OF this] obtain rows1 where
    a: "list_all2 (\<lambda>row mergedRow. rowFromFile1 file1 file2 ms row = Inr mergedRow)
       (ParsedFile.data file1) rows1" ..
  have "\<forall>row \<in> set (ParsedFile.data file2). \<exists>mergedRow. rowFromFile2 file1 file2 ms row = Inr mergedRow"
  proof
    fix row assume "row \<in> set (ParsedFile.data file2)"
    with o2 obtain obj where "row = Some obj" by (cases row) auto
    with rowFromFile2_returns [OF np] show "\<exists>mergedRow. rowFromFile2 file1 file2 ms row = Inr mergedRow"
      by simp
  qed
  from build_all [OF this] obtain rows2 where
    b: "list_all2 (\<lambda>row mergedRow. rowFromFile2 file1 file2 ms row = Inr mergedRow)
       (ParsedFile.data file2) rows2" ..
  from a b show ?thesis
    unfolding mergeFiles_def andThen_Inr forEach_pushRow by auto
qed

section \<open>Evaluating the examples\<close>

lemmas ex_defs = scenarioA_def scenarioB_def scenarioMapping_def mappingToAge_def
  mappingToProto_def sharedA_def sharedB_def namesA_def namesB_def namesMappings_def
  sparseA_def sparseB_def protoA_def plainB_def nullRowA_def constructorA_def
  valueOfA_def nameB_def valueOfToProto_def

lemmas run_defs = mergeFiles_def mergedHeaders_def rowFromFile1_def rowFromFile2_def
  pushRow_def assign_def andThen_def rowGet_def setProp_def setPrototypeOf_def getProp_def
  emptyObject_def usedColumns1_def has_mappingMap objectPrototypeNames_def
  returnedRows_def returnedHeaders_def unmapped1_def unmapped2_def
  validCorrespondences_def plainInputs_def

text \<open>The scenario of the specification gives the output the specification expects.\<close>

lemma scenario_output:
  "mergeFiles scenarioA scenarioB [scenarioMapping] = Inr
     \<lparr> MergeResult.headers = [''name'', ''email'', ''age''],
       MergeResult.data =
         [\<lparr> own = [(''name'', Value (JStr ''Ann'')), (''email'', Value (JStr ''a@x.com'')),
                   (''age'', Value JNull)], proto = ObjectPrototype \<rparr>,
          \<lparr> own = [(''name'', Value JNull), (''email'', Value (JStr ''b@x.com'')),
                   (''age'', Value (JNum 30))], proto = ObjectPrototype \<rparr>],
       mappings = [scenarioMapping],
       MergeResult.rowCount = 2,
       sourceFiles = [''a.csv'', ''b.csv''] \<rparr>"
  by (simp add: ex_defs run_defs)

lemma scenario_plain: "plainInputs scenarioA scenarioB [scenarioMapping]"
  by (simp add: ex_defs run_defs)

lemma scenario_unmapped:
  "unmapped1 scenarioA [scenarioMapping] = [''name'']"
  "unmapped2 scenarioB [scenarioMapping] = [''age'']"
  by (simp_all add: ex_defs run_defs)

lemma scenario_names:
  "column1 scenarioMapping = ''email''" "column2 scenarioMapping = ''e-mail''"
  "mergedName scenarioMapping = ''email''"
  by (simp_all add: scenarioMapping_def)

lemma scenario_rows:
  "ParsedFile.data scenarioA = [Some [(''email'', JStr ''a@x.com''), (''name'', JStr ''Ann'')]]"
  "ParsedFile.data scenarioB = [Some [(''e-mail'', JStr ''b@x.com''), (''age'', JNum 30)]]"
  by (simp_all add: ex_defs)

lemma scenario_no_mapping_output:
  "mergeFiles scenarioA scenarioB [] = Inr
     \<lparr> MergeResult.headers = [''email'', ''name'', ''e-mail'', ''age''],
       MergeResult.data =
         [\<lparr> own = [(''email'', Value (JStr ''a@x.com'')), (''name'', Value (JStr ''Ann'')),
                   (''e-mail'', Value JNull), (''age'', Value JNull)],
             proto = ObjectPrototype \<rparr>,
          \<lparr> own = [(''email'', Value JNull), (''name'', Value JNull),
                   (''e-mail'', Value (JStr ''b@x.com'')), (''age'', Value (JNum 30))],
             proto = ObjectPrototype \<rparr>],
       mappings = [],
       MergeResult.rowCount = 2,
       sourceFiles = [''a.csv'', ''b.csv''] \<rparr>"
  by (simp add: ex_defs run_defs)

lemma sparse_output:
  "returnedRows (mergeFiles sparseA sparseB [scenarioMapping]) = Inr
     [[(''name'', Value JUndefined), (''email'', Value (JStr ''a@x.com'')), (''age'', Value JNull)],
      [(''name'', Value (JStr ''Ann'')), (''email'', Value JUndefined), (''age'', Value JNull)],
      [(''name'', Value JNull), (''email'', Value (JStr ''b@x.com'')), (''age'', Value JUndefined)],
      [(''name'', Value JNull), (''email'', Value JUndefined), (''age'', Value (JNum 30))]]"
  by (simp add: ex_defs run_defs)

section \<open>Row count\<close>

text \<open>
  C1. For all datasets A and B and every correspondence list, the merged dataset that
  \<open>mergeFiles\<close> returns has as many rows as A and B together, and its \<open>rowCount\<close>
  field is the length of its data array. A dataset is returned at least whenever every
  row is an object and no output column is named \<open>__proto__\<close>.
\<close>

theorem C1_row_count:
  "(plainInputs file1 file2 ms \<longrightarrow> (\<exists>returned. mergeFiles file1 file2 ms = Inr returned))
   \<and> (mergeFiles file1 file2 ms = Inr result \<longrightarrow>
        length (MergeResult.data result)
          = length (ParsedFile.data file1) + length (ParsedFile.data file2)
        \<and> MergeResult.rowCount result = int (length (MergeResult.data result)))"
  using mergeFiles_returns [of file1 file2 ms] mergeFiles_length [of file1 file2 ms result]
  by blast

theorem C1_row_count_witness:
  "\<exists>result. mergeFiles scenarioA scenarioB [scenarioMapping] = Inr result
     \<and> length (MergeResult.data result) = 2 \<and> MergeResult.rowCount result = 2"
proof -
  from C1_row_count [of scenarioA scenarioB "[scenarioMapping]"] scenario_plain
  obtain returned where r: "mergeFiles scenarioA scenarioB [scenarioMapping] = Inr returned"
    by blast
  with C1_row_count [of scenarioA scenarioB "[scenarioMapping]" returned]
  have "length (MergeResult.data returned)
          = length (ParsedFile.data scenarioA) + length (ParsedFile.data scenarioB)"
    and "MergeResult.rowCount returned = int (length (MergeResult.data returned))"
    by blast+
  then have "length (MergeResult.data returned) = 2" "MergeResult.rowCount returned = 2"
    by (simp_all add: scenario_rows)
  with r show ?thesis by blast
qed

section \<open>Header order\<close>

text \<open>
  C2. The output header list is A's headers that no correspondence consumes, in A's
  order, then the merged name of each correspondence in list order, then B's headers
  that no correspondence consumes, in B's order: this is the list that \<open>mergeFiles\<close>
  computes before it builds any row, and the header list of every result it returns.
\<close>

theorem C2_header_order:
  "mergedHeaders file1 file2 ms
     = unmapped1 file1 ms @ map mergedName ms @ unmapped2 file2 ms
   \<and> (plainInputs file1 file2 ms \<longrightarrow> (\<exists>returned. mergeFiles file1 file2 ms = Inr returned))
   \<and> (mergeFiles file1 file2 ms = Inr result \<longrightarrow>
        MergeResult.headers result
          = unmapped1 file1 ms @ map mergedName ms @ unmapped2 file2 ms)"
proof -
  have h: "mergedHeaders file1 file2 ms
     = unmapped1 file1 ms @ map mergedName ms @ unmapped2 file2 ms"
    by (simp add: mergedHeaders_def unmapped1_def unmapped2_def usedColumns1_def has_mappingMap)
  with mergeFiles_returns [of file1 file2 ms] mergeFiles_headers [of file1 file2 ms result]
  show ?thesis by auto
qed

theorem C2_header_order_witness:
  "\<exists>result. mergeFiles scenarioA scenarioB [scenarioMapping] = Inr result
     \<and> MergeResult.headers result = [''name'', ''email'', ''age'']"
proof -
  from C2_header_order [of scenarioA scenarioB "[scenarioMapping]"] scenario_plain
  obtain returned where r: "mergeFiles scenarioA scenarioB [scenarioMapping] = Inr returned"
    by blast
  with C2_header_order [of scenarioA scenarioB "[scenarioMapping]" returned]
  have "MergeResult.headers returned
          = unmapped1 scenarioA [scenarioMapping] @ map mergedName [scenarioMapping]
            @ unmapped2 scenarioB [scenarioMapping]"
    by blast
  then have "MergeResult.headers returned = [''name'', ''email'', ''age'']"
    by (simp add: scenario_unmapped scenario_names)
  with r show ?thesis by blast
qed

section \<open>Mapped fields\<close>

text \<open>
  C3 (as the code has it). For every correspondence list whose merged names are pairwise
  distinct, and every correspondence in it whose merged name is neither \<open>__proto__\<close>
  nor the name of a column of B that no correspondence consumes: in each output row
  that comes from a row of A the field \<open>mergedName\<close> is what reading \<open>column1\<close> from
  that row yields, and in each output row that comes from a row of B it is what
  reading \<open>column2\<close> from that row yields. A result is returned at least whenever
  every row is an object and no output column is named \<open>__proto__\<close>.
\<close>

theorem C3_mapped_fields:
  assumes "m \<in> set ms" and "distinct (map mergedName ms)"
    and "mergedName m \<notin> set (unmapped2 file2 ms)"
    and "mergedName m \<noteq> ''__proto__''"
  shows "(plainInputs file1 file2 ms \<longrightarrow> (\<exists>returned. mergeFiles file1 file2 ms = Inr returned))
       \<and> (mergeFiles file1 file2 ms = Inr result \<longrightarrow>
            (i < length (ParsedFile.data file1) \<longrightarrow> ParsedFile.data file1 ! i = Some row1 \<longrightarrow>
               ownField (MergeResult.data result ! i) (mergedName m)
                 = Some (getProp row1 (column1 m)))
          \<and> (j < length (ParsedFile.data file2) \<longrightarrow> ParsedFile.data file2 ! j = Some row2 \<longrightarrow>
               ownField (MergeResult.data result ! (length (ParsedFile.data file1) + j))
                 (mergedName m)
                 = Some (getProp row2 (column2 m))))"
proof -
  have a: "ownField (MergeResult.data result ! i) (mergedName m) = Some (getProp row1 (column1 m))"
    if "mergeFiles file1 file2 ms = Inr result" "i < length (ParsedFile.data file1)"
      "ParsedFile.data file1 ! i = Some row1"
    using mergeFiles_nth1 [OF that(1,2)] that(3) assms
    by (simp add: rowFromFile1_mapped)
  have b: "ownField (MergeResult.data result ! (length (ParsedFile.data file1) + j))
                 (mergedName m) = Some (getProp row2 (column2 m))"
    if "mergeFiles file1 file2 ms = Inr result" "j < length (ParsedFile.data file2)"
      "ParsedFile.data file2 ! j = Some row2"
    using mergeFiles_nth2 [OF that(1,2)] that(3) assms
    by (simp add: rowFromFile2_mapped)
  from a b mergeFiles_returns [of file1 file2 ms] show ?thesis by blast
qed

text \<open>The scenario of the specification satisfies the hypotheses.\<close>

theorem C3_mapped_fields_witness:
  "\<exists>result. mergeFiles scenarioA scenarioB [scenarioMapping] = Inr result
     \<and> ownField (MergeResult.data result ! 0) ''email'' = Some (Value (JStr ''a@x.com''))
     \<and> ownField (MergeResult.data result ! 1) ''email'' = Some (Value (JStr ''b@x.com''))"
proof -
  have h1: "scenarioMapping \<in> set [scenarioMapping]" by simp
  have h2: "distinct (map mergedName [scenarioMapping])" by simp
  have h3: "mergedName scenarioMapping \<notin> set (unmapped2 scenarioB [scenarioMapping])"
    by (simp add: scenario_unmapped scenario_names)
  have h4: "mergedName scenarioMapping \<noteq> ''__proto__''"
    by (simp add: scenario_names)
  note c3 = C3_mapped_fields [OF h1 h2 h3 h4, of scenarioA]
  from c3 scenario_plain
  obtain returned where r: "mergeFiles scenarioA scenarioB [scenarioMapping] = Inr returned"
    by blast
  have "ownField (MergeResult.data returned ! 0) (mergedName scenarioMapping)
          = Some (getProp [(''email'', JStr ''a@x.com''), (''name'', JStr ''Ann'')]
                    (column1 scenarioMapping))"
    using c3 [of returned 0 _ 0] r by (simp add: scenario_rows)
  moreover have "ownField (MergeResult.data returned ! (length (ParsedFile.data scenarioA) + 0))
            (mergedName scenarioMapping)
          = Some (getProp [(''e-mail'', JStr ''b@x.com''), (''age'', JNum 30)]
                    (column2 scenarioMapping))"
    using c3 [of returned 0 _ 0] r by (simp add: scenario_rows)
  ultimately have
    "ownField (MergeResult.data returned ! 0) ''email'' = Some (Value (JStr ''a@x.com''))"
    "ownField (MergeResult.data returned ! 1) ''email'' = Some (Value (JStr ''b@x.com''))"
    by (simp_all add: scenario_rows scenario_names getProp_def)
  with r show ?thesis by blast
qed

text \<open>
  Without the provisos the property fails. The list \<open>[mappingToAge]\<close> meets every
  invariant of a correspondence list, yet its merged name \<open>age\<close> is also B's
  unconsumed column: the third loop of each callback runs last and overwrites the
  field, with \<open>null\<close> in the row from A (whose \<open>email\<close> is \<open>a@x.com\<close>) and with B's
  own \<open>age\<close> in the row from B (whose \<open>e-mail\<close> is \<open>b@x.com\<close>). The list
  \<open>[mappingToProto]\<close> meets every invariant as well: the assignment of a string to
  \<open>__proto__\<close> is ignored, and neither row has such a field.
\<close>

theorem C3_mapped_fields_counterexample:
  "validCorrespondences scenarioA scenarioB [mappingToAge]
   \<and> distinct (map mergedName [mappingToAge])
   \<and> returnedRows (mergeFiles scenarioA scenarioB [mappingToAge])
       = Inr [[(''name'', Value (JStr ''Ann'')), (''age'', Value JNull)],
              [(''name'', Value JNull), (''age'', Value (JNum 30))]]
   \<and> validCorrespondences scenarioA scenarioB [mappingToProto]
   \<and> distinct (map mergedName [mappingToProto])
   \<and> returnedRows (mergeFiles scenarioA scenarioB [mappingToProto])
       = Inr [[(''name'', Value (JStr ''Ann'')), (''age'', Value JNull)],
              [(''name'', Value JNull), (''age'', Value (JNum 30))]]"
  by (simp add: ex_defs run_defs)

section \<open>Cross-fill with \<open>null\<close>\<close>

text \<open>
  C4 (as the code has it). In every output row that comes from A, every column of B that
  no correspondence consumes, other than \<open>__proto__\<close>, is an own field that holds
  \<open>null\<close>. In every output row that comes from B, every column of A that no
  correspondence consumes is an own field that holds \<open>null\<close>, provided its name is
  neither \<open>__proto__\<close>, nor a merged name, nor the name of an unconsumed column of B.
  A result is returned at least whenever every row is an object and no output column
  is named \<open>__proto__\<close>.
\<close>

theorem C4_cross_fill:
  "(plainInputs file1 file2 ms \<longrightarrow> (\<exists>returned. mergeFiles file1 file2 ms = Inr returned))
   \<and> (mergeFiles file1 file2 ms = Inr result \<longrightarrow>
        (i < length (ParsedFile.data file1) \<longrightarrow> h2 \<in> set (unmapped2 file2 ms) \<longrightarrow>
           h2 \<noteq> ''__proto__'' \<longrightarrow>
           ownField (MergeResult.data result ! i) h2 = Some (Value JNull))
      \<and> (j < length (ParsedFile.data file2) \<longrightarrow> h1 \<in> set (unmapped1 file1 ms) \<longrightarrow>
           h1 \<notin> set (map mergedName ms) \<longrightarrow> h1 \<notin> set (unmapped2 file2 ms) \<longrightarrow>
           h1 \<noteq> ''__proto__'' \<longrightarrow>
           ownField (MergeResult.data result ! (length (ParsedFile.data file1) + j)) h1
             = Some (Value JNull)))"
proof -
  have a: "ownField (MergeResult.data result ! i) h2 = Some (Value JNull)"
    if "mergeFiles file1 file2 ms = Inr result" "i < length (ParsedFile.data file1)"
      "h2 \<in> set (unmapped2 file2 ms)" "h2 \<noteq> ''__proto__''"
    using rowFromFile1_unmapped2 [OF mergeFiles_nth1 [OF that(1,2)] that(3,4)] .
  have b: "ownField (MergeResult.data result ! (length (ParsedFile.data file1) + j)) h1
             = Some (Value JNull)"
    if "mergeFiles file1 file2 ms = Inr result" "j < length (ParsedFile.data file2)"
      "h1 \<in> set (unmapped1 file1 ms)" "h1 \<notin> set (map mergedName ms)"
      "h1 \<notin> set (unmapped2 file2 ms)" "h1 \<noteq> ''__proto__''"
    using rowFromFile2_unmapped1 [OF mergeFiles_nth2 [OF that(1,2)] that(3,4,5,6)] .
  from a b mergeFiles_returns [of file1 file2 ms] show ?thesis by blast
qed

theorem C4_cross_fill_witness:
  "\<exists>result. mergeFiles scenarioA scenarioB [scenarioMapping] = Inr result
     \<and> ownField (MergeResult.data result ! 0) ''age'' = Some (Value JNull)
     \<and> ownField (MergeResult.data result ! 1) ''name'' = Some (Value JNull)"
proof -
  note c4 = C4_cross_fill [of scenarioA scenarioB "[scenarioMapping]"]
  from c4 scenario_plain
  obtain returned where r: "mergeFiles scenarioA scenarioB [scenarioMapping] = Inr returned"
    by blast
  from c4 [of returned 0 "''age''" 0 "''name''"] r
  have "ownField (MergeResult.data returned ! 0) ''age'' = Some (Value JNull)"
    "ownField (MergeResult.data returned ! 1) ''name'' = Some (Value JNull)"
    by (simp_all add: scenario_rows scenario_unmapped scenario_names)
  with r show ?thesis by blast
qed

text \<open>
  Without the provisos the property fails. Where both files have an unconsumed column
  \<open>id\<close>, the row that comes from B (the second) holds B's value there, not \<open>null\<close>.
  Where B's unconsumed column is named \<open>__proto__\<close>, the assignment of \<open>null\<close> in the
  row that comes from A (the first) only resets the prototype: the row has no such
  field.
\<close>

theorem C4_cross_fill_counterexample:
  "unmapped1 sharedA [] = [''id'']
   \<and> returnedRows (mergeFiles sharedA sharedB [])
       = Inr [[(''id'', Value JNull)], [(''id'', Value (JStr ''2''))]]
   \<and> unmapped2 protoA [] = [''__proto__'']
   \<and> returnedRows (mergeFiles plainB protoA [])
       = Inr [[(''y'', Value (JNum 1))], [(''y'', Value JNull)]]"
  by (simp add: ex_defs run_defs)

section \<open>Order preservation\<close>

text \<open>
  C5 (as the code has it). The output row at position \<open>i\<close>, for \<open>i\<close> below the number
  of rows of A, holds what reading from the \<open>i\<close>-th row of A yields on every
  unconsumed column of A whose name is neither \<open>__proto__\<close>, nor a merged name, nor
  the name of an unconsumed column of B. The output row at position
  \<open>rowCount(A) + j\<close> holds what reading from the \<open>j\<close>-th row of B yields on every
  unconsumed column of B other than \<open>__proto__\<close>. A result is returned at least
  whenever every row is an object and no output column is named \<open>__proto__\<close>.
\<close>

theorem C5_order_preserved:
  "(plainInputs file1 file2 ms \<longrightarrow> (\<exists>returned. mergeFiles file1 file2 ms = Inr returned))
   \<and> (mergeFiles file1 file2 ms = Inr result \<longrightarrow>
        (i < length (ParsedFile.data file1) \<longrightarrow> ParsedFile.data file1 ! i = Some row1 \<longrightarrow>
           h1 \<in> set (unmapped1 file1 ms) \<longrightarrow> h1 \<notin> set (map mergedName ms) \<longrightarrow>
           h1 \<notin> set (unmapped2 file2 ms) \<longrightarrow> h1 \<noteq> ''__proto__'' \<longrightarrow>
           ownField (MergeResult.data result ! i) h1 = Some (getProp row1 h1))
      \<and> (j < length (ParsedFile.data file2) \<longrightarrow> ParsedFile.data file2 ! j = Some row2 \<longrightarrow>
           h2 \<in> set (unmapped2 file2 ms) \<longrightarrow> h2 \<noteq> ''__proto__'' \<longrightarrow>
           ownField (MergeResult.data result ! (length (ParsedFile.data file1) + j)) h2
             = Some (getProp row2 h2)))"
proof -
  have a: "ownField (MergeResult.data result ! i) h1 = Some (getProp row1 h1)"
    if "mergeFiles file1 file2 ms = Inr result" "i < length (ParsedFile.data file1)"
      "ParsedFile.data file1 ! i = Some row1"
      "h1 \<in> set (unmapped1 file1 ms)" "h1 \<notin> set (map mergedName ms)"
      "h1 \<notin> set (unmapped2 file2 ms)" "h1 \<noteq> ''__proto__''"
    using mergeFiles_nth1 [OF that(1,2)] that(3-)
    by (simp add: rowFromFile1_unmapped1)
  have b: "ownField (MergeResult.data result ! (length (ParsedFile.data file1) + j)) h2
             = Some (getProp row2 h2)"
    if "mergeFiles file1 file2 ms = Inr result" "j < length (ParsedFile.data file2)"
      "ParsedFile.data file2 ! j = Some row2"
      "h2 \<in> set (unmapped2 file2 ms)" "h2 \<noteq> ''__proto__''"
    using mergeFiles_nth2 [OF that(1,2)] that(3-)
    by (simp add: rowFromFile2_unmapped2)
  from a b mergeFiles_returns [of file1 file2 ms] show ?thesis by blast
qed

theorem C5_order_preserved_witness:
  "\<exists>result. mergeFiles scenarioA scenarioB [scenarioMapping] = Inr result
     \<and> ownField (MergeResult.data result ! 0) ''name'' = Some (Value (JStr ''Ann''))
     \<and> ownField (MergeResult.data result ! 1) ''age'' = Some (Value (JNum 30))"
proof -
  note c5 = C5_order_preserved [of scenarioA scenarioB "[scenarioMapping]"]
  from c5 scenario_plain
  obtain returned where r: "mergeFiles scenarioA scenarioB [scenarioMapping] = Inr returned"
    by blast
  from c5 [of returned 0 _ "''name''" 0 _ "''age''"] r
  have "ownField (MergeResult.data returned ! 0) ''name''
          = Some (getProp [(''email'', JStr ''a@x.com''), (''name'', JStr ''Ann'')] ''name'')"
    "ownField (MergeResult.data returned ! 1) ''age''
          = Some (getProp [(''e-mail'', JStr ''b@x.com''), (''age'', JNum 30)] ''age'')"
    by (simp_all add: scenario_rows scenario_unmapped scenario_names)
  then have "ownField (MergeResult.data returned ! 0) ''name'' = Some (Value (JStr ''Ann''))"
    "ownField (MergeResult.data returned ! 1) ''age'' = Some (Value (JNum 30))"
    by (simp_all add: getProp_def)
  with r show ?thesis by blast
qed

text \<open>
  Without the provisos the property fails. Where both files have an unconsumed column
  \<open>id\<close>, the row that comes from A holds \<open>null\<close> where A's row holds \<open>1\<close>. Where A's
  unconsumed column is named \<open>__proto__\<close> and A's row holds the string \<open>x\<close> there,
  the assignment of the string is ignored and the row that comes from A has no such
  field.
\<close>

theorem C5_order_preserved_counterexample:
  "unmapped1 sharedA [] = [''id'']
   \<and> ParsedFile.data sharedA = [Some [(''id'', JStr ''1'')]]
   \<and> returnedRows (mergeFiles sharedA sharedB [])
       = Inr [[(''id'', Value JNull)], [(''id'', Value (JStr ''2''))]]
   \<and> unmapped1 protoA [] = [''__proto__'']
   \<and> ParsedFile.data protoA = [Some [(''__proto__'', JStr ''x'')]]
   \<and> returnedRows (mergeFiles protoA plainB [])
       = Inr [[(''y'', Value JNull)], [(''y'', Value (JNum 1))]]"
  by (simp add: ex_defs run_defs)

section \<open>No correspondences\<close>

text \<open>
  C6 (as the code has it). When the correspondence list is empty, no header of A is a
  header of B and no header is named \<open>__proto__\<close>: the output headers are A's headers
  followed by B's, the output has one row per input row, A's first; each row has
  exactly the headers of both files as its keys; a row from A holds what reading from
  A's row yields on A's headers and \<open>null\<close> on B's, and a row from B holds \<open>null\<close>
  on A's headers and what reading from B's row yields on B's. A result is returned at
  least whenever every row is an object.
\<close>

theorem C6_no_mapping:
  assumes "set (ParsedFile.headers file1) \<inter> set (ParsedFile.headers file2) = {}"
    and "''__proto__'' \<notin> set (ParsedFile.headers file1) \<union> set (ParsedFile.headers file2)"
  shows "(None \<notin> set (ParsedFile.data file1) \<and> None \<notin> set (ParsedFile.data file2) \<longrightarrow>
            (\<exists>returned. mergeFiles file1 file2 [] = Inr returned))
       \<and> (mergeFiles file1 file2 [] = Inr result \<longrightarrow>
            MergeResult.headers result = ParsedFile.headers file1 @ ParsedFile.headers file2
          \<and> length (MergeResult.data result)
              = length (ParsedFile.data file1) + length (ParsedFile.data file2)
          \<and> (i < length (ParsedFile.data file1) \<longrightarrow>
               keys (MergeResult.data result ! i)
                 = set (ParsedFile.headers file1) \<union> set (ParsedFile.headers file2)
               \<and> (h \<in> set (ParsedFile.headers file1) \<longrightarrow>
                    ParsedFile.data file1 ! i = Some row1 \<longrightarrow>
                    ownField (MergeResult.data result ! i) h = Some (getProp row1 h))
               \<and> (h \<in> set (ParsedFile.headers file2) \<longrightarrow>
                    ownField (MergeResult.data result ! i) h = Some (Value JNull)))
          \<and> (j < length (ParsedFile.data file2) \<longrightarrow>
               keys (MergeResult.data result ! (length (ParsedFile.data file1) + j))
                 = set (ParsedFile.headers file1) \<union> set (ParsedFile.headers file2)
               \<and> (h \<in> set (ParsedFile.headers file1) \<longrightarrow>
                    ownField (MergeResult.data result ! (length (ParsedFile.data file1) + j)) h
                      = Some (Value JNull))
               \<and> (h \<in> set (ParsedFile.headers file2) \<longrightarrow>
                    ParsedFile.data file2 ! j = Some row2 \<longrightarrow>
                    ownField (MergeResult.data result ! (length (ParsedFile.data file1) + j)) h
                      = Some (getProp row2 h))))"
proof -
  have hdr: "mergedHeaders file1 file2 [] = ParsedFile.headers file1 @ ParsedFile.headers file2"
    by (simp add: mergedHeaders_def usedColumns1_def has_mappingMap)
  have u1: "unmapped1 file1 [] = ParsedFile.headers file1"
    and u2: "unmapped2 file2 [] = ParsedFile.headers file2"
    by (simp_all add: unmapped1_def unmapped2_def)
  have disj: "h \<notin> set (ParsedFile.headers file2)" if "h \<in> set (ParsedFile.headers file1)" for h
    using assms(1) that by auto
  have np: "h \<noteq> ''__proto__''"
    if "h \<in> set (ParsedFile.headers file1) \<or> h \<in> set (ParsedFile.headers file2)" for h
    using assms(2) that by auto
  have nps: "''__proto__'' \<notin> set (mergedHeaders file1 file2 [])"
    using assms(2) by (simp add: hdr)
  have ret: "\<exists>returned. mergeFiles file1 file2 [] = Inr returned"
    if "None \<notin> set (ParsedFile.data file1) \<and> None \<notin> set (ParsedFile.data file2)"
    using that nps by (intro mergeFiles_returns) (simp add: plainInputs_def)
  have keys_eq: "keys mergedRow = set (ParsedFile.headers file1) \<union> set (ParsedFile.headers file2)"
    if "keys mergedRow \<subseteq> set (mergedHeaders file1 file2 [])"
      "set (mergedHeaders file1 file2 []) - {''__proto__''} \<subseteq> keys mergedRow" for mergedRow
    using that nps by (auto simp: hdr)
  have rows1: "keys (MergeResult.data result ! i)
                 = set (ParsedFile.headers file1) \<union> set (ParsedFile.headers file2)
               \<and> (h \<in> set (ParsedFile.headers file1) \<longrightarrow>
                    ParsedFile.data file1 ! i = Some row1 \<longrightarrow>
                    ownField (MergeResult.data result ! i) h = Some (getProp row1 h))
               \<and> (h \<in> set (ParsedFile.headers file2) \<longrightarrow>
                    ownField (MergeResult.data result ! i) h = Some (Value JNull))"
    if res: "mergeFiles file1 file2 [] = Inr result" and i: "i < length (ParsedFile.data file1)"
  proof -
    note row = mergeFiles_nth1 [OF res i]
    have k: "keys (MergeResult.data result ! i)
                 = set (ParsedFile.headers file1) \<union> set (ParsedFile.headers file2)"
      by (rule keys_eq [OF keys_rowFromFile1 [OF row]])
    have a: "ownField (MergeResult.data result ! i) h = Some (getProp row1 h)"
      if "h \<in> set (ParsedFile.headers file1)" "ParsedFile.data file1 ! i = Some row1"
      using row that disj [of h] np [of h]
      by (intro rowFromFile1_unmapped1 [where ms = "[]" and ?file1.0 = file1 and ?file2.0 = file2])
        (simp_all add: u1 u2)
    have b: "ownField (MergeResult.data result ! i) h = Some (Value JNull)"
      if "h \<in> set (ParsedFile.headers file2)"
      using row that np [of h]
      by (intro rowFromFile1_unmapped2 [where ms = "[]" and ?file1.0 = file1 and ?file2.0 = file2])
        (simp_all add: u2)
    from k a b show ?thesis by blast
  qed
  have rows2: "keys (MergeResult.data result ! (length (ParsedFile.data file1) + j))
                 = set (ParsedFile.headers file1) \<union> set (ParsedFile.headers file2)
               \<and> (h \<in> set (ParsedFile.headers file1) \<longrightarrow>
                    ownField (MergeResult.data result ! (length (ParsedFile.data file1) + j)) h
                      = Some (Value JNull))
               \<and> (h \<in> set (ParsedFile.headers file2) \<longrightarrow>
                    ParsedFile.data file2 ! j = Some row2 \<longrightarrow>
                    ownField (MergeResult.data result ! (length (ParsedFile.data file1) + j)) h
                      = Some (getProp row2 h))"
    if res: "mergeFiles file1 file2 [] = Inr result" and j: "j < length (ParsedFile.data file2)"
  proof -
    note row = mergeFiles_nth2 [OF res j]
    have k: "keys (MergeResult.data result ! (length (ParsedFile.data file1) + j))
                 = set (ParsedFile.headers file1) \<union> set (ParsedFile.headers file2)"
      by (rule keys_eq [OF keys_rowFromFile2 [OF row]])
    have a: "ownField (MergeResult.data result ! (length (ParsedFile.data file1) + j)) h
               = Some (Value JNull)"
      if "h \<in> set (ParsedFile.headers file1)"
      using row that disj [of h] np [of h]
      by (intro rowFromFile2_unmapped1 [where ms = "[]" and ?file1.0 = file1 and ?file2.0 = file2])
        (simp_all add: u1 u2)
    have b: "ownField (MergeResult.data result ! (length (ParsedFile.data file1) + j)) h
               = Some (getProp row2 h)"
      if "h \<in> set (ParsedFile.headers file2)" "ParsedFile.data file2 ! j = Some row2"
      using row that np [of h]
      by (intro rowFromFile2_unmapped2 [where ms = "[]" and ?file1.0 = file1 and ?file2.0 = file2])
        (simp_all add: u2)
    from k a b show ?thesis by blast
  qed
  have hd: "MergeResult.headers result = ParsedFile.headers file1 @ ParsedFile.headers file2"
    if "mergeFiles file1 file2 [] = Inr result"
    using mergeFiles_headers [OF that] by (simp add: hdr)
  from ret hd mergeFiles_length(1) [of file1 file2 "[]" result] rows1 rows2
  show ?thesis by blast
qed

theorem C6_no_mapping_witness:
  "\<exists>result. mergeFiles scenarioA scenarioB [] = Inr result
     \<and> MergeResult.headers result = [''email'', ''name'', ''e-mail'', ''age'']
     \<and> keys (MergeResult.data result ! 0) = {''email'', ''name'', ''e-mail'', ''age''}
     \<and> ownField (MergeResult.data result ! 0) ''email'' = Some (Value (JStr ''a@x.com''))
     \<and> ownField (MergeResult.data result ! 0) ''age'' = Some (Value JNull)
     \<and> ownField (MergeResult.data result ! 1) ''email'' = Some (Value JNull)
     \<and> ownField (MergeResult.data result ! 1) ''age'' = Some (Value (JNum 30))"
proof -
  have disj: "set (ParsedFile.headers scenarioA) \<inter> set (ParsedFile.headers scenarioB) = {}"
    by (simp add: scenarioA_def scenarioB_def)
  have np: "''__proto__'' \<notin> set (ParsedFile.headers scenarioA) \<union> set (ParsedFile.headers scenarioB)"
    by (simp add: scenarioA_def scenarioB_def)
  have hs: "ParsedFile.headers scenarioA = [''email'', ''name'']"
    "ParsedFile.headers scenarioB = [''e-mail'', ''age'']"
    by (simp_all add: scenarioA_def scenarioB_def)
  note c6 = C6_no_mapping [OF disj np]
  have "None \<notin> set (ParsedFile.data scenarioA) \<and> None \<notin> set (ParsedFile.data scenarioB)"
    by (simp add: scenario_rows)
  with c6 [THEN conjunct1]
  obtain returned where r: "mergeFiles scenarioA scenarioB [] = Inr returned"
    by blast
  from c6 [of returned 0 "''email''" _ 0] c6 [of returned 0 "''age''" _ 0] r
  have "MergeResult.headers returned = [''email'', ''name'', ''e-mail'', ''age'']"
    "keys (MergeResult.data returned ! 0) = {''email'', ''name'', ''e-mail'', ''age''}"
    "ownField (MergeResult.data returned ! 0) ''email''
       = Some (getProp [(''email'', JStr ''a@x.com''), (''name'', JStr ''Ann'')] ''email'')"
    "ownField (MergeResult.data returned ! 0) ''age'' = Some (Value JNull)"
    "ownField (MergeResult.data returned ! 1) ''email'' = Some (Value JNull)"
    "ownField (MergeResult.data returned ! 1) ''age''
       = Some (getProp [(''e-mail'', JStr ''b@x.com''), (''age'', JNum 30)] ''age'')"
    by (auto simp: scenario_rows hs)
  then show ?thesis using r by (simp add: getProp_def)
qed

text \<open>
  Without the last proviso the property fails: the list is empty and the headers
  \<open>__proto__\<close> of A and \<open>y\<close> of B are disjoint, but the row that comes from A has the
  key \<open>y\<close> only, and not A's cell \<open>x\<close>.
\<close>

theorem C6_no_mapping_counterexample:
  "set (ParsedFile.headers protoA) \<inter> set (ParsedFile.headers plainB) = {}
   \<and> returnedHeaders (mergeFiles protoA plainB []) = Inr [''__proto__'', ''y'']
   \<and> getProp [(''__proto__'', JStr ''x'')] ''__proto__'' = Value (JStr ''x'')
   \<and> returnedRows (mergeFiles protoA plainB [])
       = Inr [[(''y'', Value JNull)], [(''y'', Value (JNum 1))]]"
  by (simp add: ex_defs run_defs)

section \<open>Duplicate header names\<close>

text \<open>
  C7. The header list is built by concatenation alone, so a name that occurs twice
  among the unconsumed headers and the merged names occurs twice in it: two
  correspondences that share the merged name \<open>name\<close> give the header list
  \<open>[name, name]\<close>, and two files that share the unconsumed column \<open>id\<close> give
  \<open>[id, id]\<close>.
\<close>

theorem C7_duplicate_header:
  "returnedHeaders (mergeFiles namesA namesB namesMappings) = Inr [''name'', ''name'']
   \<and> returnedHeaders (mergeFiles sharedA sharedB []) = Inr [''id'', ''id'']"
  by (simp add: ex_defs run_defs)

section \<open>Cells that a row lacks, and exceptions\<close>






section \<open>Answers of the merge route\<close>




section \<open>Keys of the merged rows\<close>

text \<open>
  C10 (as the code has it). In every result that \<open>mergeFiles\<close> returns, every key of
  every row is a name of the output header list, and every name of the output header
  list other than \<open>__proto__\<close> is a key of every row, whichever file the row comes
  from. A result is returned at least whenever every row is an object and no output
  column is named \<open>__proto__\<close>.
\<close>

theorem C10_row_keys:
  "(plainInputs file1 file2 ms \<longrightarrow> (\<exists>returned. mergeFiles file1 file2 ms = Inr returned))
   \<and> (mergeFiles file1 file2 ms = Inr result \<longrightarrow>
        mergedRow \<in> set (MergeResult.data result) \<longrightarrow>
        keys mergedRow \<subseteq> set (MergeResult.headers result)
        \<and> set (MergeResult.headers result) - {''__proto__''} \<subseteq> keys mergedRow)"
proof -
  have "keys mergedRow \<subseteq> set (MergeResult.headers result)
        \<and> set (MergeResult.headers result) - {''__proto__''} \<subseteq> keys mergedRow"
    if res: "mergeFiles file1 file2 ms = Inr result"
      and row: "mergedRow \<in> set (MergeResult.data result)"
  proof -
    from mergeFiles_row [OF res row] consider
        (fromA) r where "rowFromFile1 file1 file2 ms r = Inr mergedRow"
      | (fromB) r where "rowFromFile2 file1 file2 ms r = Inr mergedRow"
      by blast
    then show ?thesis
    proof cases
      case fromA
      from keys_rowFromFile1 [OF this] show ?thesis
        by (simp add: mergeFiles_headers [OF res])
    next
      case fromB
      from keys_rowFromFile2 [OF this] show ?thesis
        by (simp add: mergeFiles_headers [OF res])
    qed
  qed
  with mergeFiles_returns [of file1 file2 ms] show ?thesis by blast
qed

theorem C10_row_keys_witness:
  "\<exists>result. mergeFiles scenarioA scenarioB [scenarioMapping] = Inr result
     \<and> keys (MergeResult.data result ! 1) = {''name'', ''email'', ''age''}"
proof -
  note c10 = C10_row_keys [of scenarioA scenarioB "[scenarioMapping]"]
  from c10 scenario_plain
  obtain returned where r: "mergeFiles scenarioA scenarioB [scenarioMapping] = Inr returned"
    by blast
  with scenario_output have out: "MergeResult.headers returned = [''name'', ''email'', ''age'']"
    "length (MergeResult.data returned) = 2"
    by auto
  then have "MergeResult.data returned ! 1 \<in> set (MergeResult.data returned)"
    by simp
  with c10 [of returned "MergeResult.data returned ! 1"] r
  have "keys (MergeResult.data returned ! 1) \<subseteq> set (MergeResult.headers returned)"
    "set (MergeResult.headers returned) - {''__proto__''} \<subseteq> keys (MergeResult.data returned ! 1)"
    by blast+
  with out(1) have "keys (MergeResult.data returned ! 1) = {''name'', ''email'', ''age''}"
    by auto
  with r show ?thesis by blast
qed

text \<open>
  For the header \<open>__proto__\<close> the property fails: the header list names it, and no
  row has it as a key.
\<close>

theorem C10_row_keys_counterexample:
  "returnedHeaders (mergeFiles protoA plainB []) = Inr [''__proto__'', ''y'']
   \<and> returnedRows (mergeFiles protoA plainB [])
       = Inr [[(''y'', Value JNull)], [(''y'', Value (JNum 1))]]"
  by (simp add: ex_defs run_defs)

end
